theory Spec2Isabelle
  imports Main "HOL-Library.Sublist" "HOL-Library.Char_ord" "HOL-Library.List_Lexorder"
    "HOL-Library.Multiset"
begin

section \<open>JavaScript values, errors and string helpers\<close>

text \<open>
  Strings are lists of 8-bit code units. A JavaScript value as far as the commands
  inspect one: the transcription collaborator's answer is checked with
  \<^verbatim>\<open>!transcription || typeof transcription !== 'object' || typeof transcription.text !== 'string'\<close>.
\<close>

datatype js_value =
    JUndefined
  | JNull
  | JBool bool
  | JNum int
  | JStr string
  | JObj "(string \<times> js_value) list"

text \<open>
  A thrown value is an Error object: the class it is an instance of (only the two
  cancellation classes of the shared package are ever tested with \<^verbatim>\<open>instanceof\<close>), its
  \<^verbatim>\<open>name\<close> and its \<^verbatim>\<open>message\<close>.
\<close>

datatype error_class = UserCancellationError | CancellationError | OtherError

record js_error =
  err_class :: error_class
  err_name :: string
  err_message :: string

definition new_Error :: "string \<Rightarrow> js_error" where
  "new_Error msg = \<lparr>err_class = OtherError, err_name = ''Error'', err_message = msg\<rparr>"

definition new_TypeError :: "string \<Rightarrow> js_error" where
  "new_TypeError msg = \<lparr>err_class = OtherError, err_name = ''TypeError'', err_message = msg\<rparr>"

text \<open>\<^verbatim>\<open>Error.prototype.toString\<close>.\<close>

definition error_toString :: "js_error \<Rightarrow> string" where
  "error_toString e =
     (if err_name e = [] then err_message e
      else if err_message e = [] then err_name e
      else err_name e @ '': '' @ err_message e)"

text \<open>Truthiness of an optional string, and \<^verbatim>\<open>a || b\<close> on one.\<close>

definition truthy_str :: "string option \<Rightarrow> bool" where
  "truthy_str v = (case v of None \<Rightarrow> False | Some s \<Rightarrow> s \<noteq> [])"

definition str_or :: "string option \<Rightarrow> string \<Rightarrow> string" where
  "str_or v d = (case v of None \<Rightarrow> d | Some s \<Rightarrow> if s = [] then d else s)"

text \<open>
  \<^verbatim>\<open>String.prototype.trim\<close> and \<^verbatim>\<open>toLowerCase\<close> on 8-bit code units: the white space
  is TAB, LF, VT, FF, CR, SPACE and NBSP; the letters with a lower case are A-Z and
  the Latin-1 capitals.
\<close>

definition is_space :: "char \<Rightarrow> bool" where
  "is_space c = (let n = (of_char c :: nat) in (9 \<le> n \<and> n \<le> 13) \<or> n = 32 \<or> n = 160)"

definition trim :: "string \<Rightarrow> string" where
  "trim s = rev (dropWhile is_space (rev (dropWhile is_space s)))"

definition lower_char :: "char \<Rightarrow> char" where
  "lower_char c =
     (let n = (of_char c :: nat)
      in if (65 \<le> n \<and> n \<le> 90) \<or> (192 \<le> n \<and> n \<le> 222 \<and> n \<noteq> 215)
         then char_of (n + 32) else c)"

definition toLowerCase :: "string \<Rightarrow> string" where
  "toLowerCase s = map lower_char s"

text \<open>\<^verbatim>\<open>Array.prototype.join\<close> on strings, and a number in a template literal.\<close>

fun js_join :: "string \<Rightarrow> string list \<Rightarrow> string" where
  "js_join sep [] = []"
| "js_join sep [x] = x"
| "js_join sep (x # y # ys) = x @ sep @ js_join sep (y # ys)"

definition digit_char :: "nat \<Rightarrow> char" where
  "digit_char d = char_of (48 + d)"

fun show_nat :: "nat \<Rightarrow> string" where
  "show_nat n = (if n < 10 then [digit_char n] else show_nat (n div 10) @ [digit_char (n mod 10)])"

declare show_nat.simps [simp del]

section \<open>The invocation config\<close>

text \<open>
  The option blocks of \<^verbatim>\<open>Config\<close> the commands read. The field \<^verbatim>\<open>file\<close> of an audio block is \<open>audio_file\<close>. An optional field is an
  \<open>option\<close>; the fields of a block that the commands never name are kept in its
  \<open>_rest\<close> field, a list of key and value pairs.
\<close>

record audio_commit_config =
  audio_file :: "string option"
  maxRecordingTime :: "int option"

record audio_review_config = audio_commit_config +
  directory :: "string option"
  ar_includeCommitHistory :: "bool option"
  ar_includeRecentDiffs :: "bool option"
  ar_includeReleaseNotes :: "bool option"
  ar_includeGithubIssues :: "bool option"
  ar_commitHistoryLimit :: "int option"
  ar_diffHistoryLimit :: "int option"
  ar_releaseNotesLimit :: "int option"
  ar_githubIssuesLimit :: "int option"
  ar_sendit :: "bool option"
  ar_context :: "string option"

record commit_config =
  direction :: "string option"
  commit_rest :: "(string \<times> js_value) list"

record review_config =
  includeCommitHistory :: "bool option"
  includeRecentDiffs :: "bool option"
  includeReleaseNotes :: "bool option"
  includeGithubIssues :: "bool option"
  commitHistoryLimit :: "int option"
  diffHistoryLimit :: "int option"
  releaseNotesLimit :: "int option"
  githubIssuesLimit :: "int option"
  sendit :: "bool option"
  rv_context :: "string option"
  rv_note :: "string option"
  review_rest :: "(string \<times> js_value) list"

record config =
  dryRun :: "bool option"
  debug :: "bool option"
  outputDirectory :: "string option"
  audioCommit :: "audio_commit_config option"
  audioReview :: "audio_review_config option"
  commit :: "commit_config option"
  review :: "review_config option"
  config_rest :: "(string \<times> js_value) list"

text \<open>\<^verbatim>\<open>runConfig.dryRun || false\<close>.\<close>

definition isDryRun :: "config \<Rightarrow> bool" where
  "isDryRun cfg = (case dryRun cfg of None \<Rightarrow> False | Some b \<Rightarrow> b)"

text \<open>\<^verbatim>\<open>block?.file\<close> and \<^verbatim>\<open>block?.maxRecordingTime\<close> of an optional audio block.\<close>

definition opt_file :: "'a audio_commit_config_scheme option \<Rightarrow> string option" where
  "opt_file blk = (case blk of None \<Rightarrow> None | Some b \<Rightarrow> audio_file b)"

definition opt_maxRecordingTime :: "'a audio_commit_config_scheme option \<Rightarrow> int option" where
  "opt_maxRecordingTime blk = (case blk of None \<Rightarrow> None | Some b \<Rightarrow> maxRecordingTime b)"

text \<open>\<^verbatim>\<open>runConfig.outputDirectory || 'output'\<close>.\<close>

definition outputDir :: "config \<Rightarrow> string" where
  "outputDir cfg = str_or (outputDirectory cfg) ''output''"

section \<open>Collaborators, events and the run state\<close>

record audio_options =
  pa_file :: "string option"
  pa_maxRecordingTime :: "int option"
  pa_outputDirectory :: string
  pa_debug :: "bool option"

record audio_result =
  cancelled :: "bool option"
  result_audioFilePath :: "string option"

text \<open>
  The options handed to \<^verbatim>\<open>transcribeAudio\<close>: the model name, the debug flag, the directory
  of the storage adapter and the directory the \<^verbatim>\<open>onArchive\<close> callback archives into.
\<close>

record transcribe_options =
  tr_model :: string
  tr_debug :: "bool option"
  tr_storageDir :: string
  tr_archiveDir :: string

text \<open>
  The packages the commands import are parameters. A collaborator that does I/O takes
  the outside world \<open>'w\<close> and returns its answer (\<open>Inl\<close> when it throws) with the new
  world. \<open>cancellationName\<close> and \<open>userCancellationName\<close> are the \<^verbatim>\<open>name\<close> the two error
  classes of the shared package give their instances.
\<close>

record 'w collaborators =
  processAudio :: "audio_options \<Rightarrow> 'w \<Rightarrow> (js_error + audio_result) \<times> 'w"
  transcribeAudio :: "string \<Rightarrow> transcribe_options \<Rightarrow> 'w \<Rightarrow> (js_error + js_value) \<times> 'w"
  executeCommit :: "config \<Rightarrow> 'w \<Rightarrow> (js_error + string) \<times> 'w"
  executeReview :: "config \<Rightarrow> 'w \<Rightarrow> (js_error + string) \<times> 'w"
  getTimestampedAudioFilename :: "'w \<Rightarrow> string"
  isDirectoryReadable :: "string \<Rightarrow> 'w \<Rightarrow> (js_error + bool) \<times> 'w"
  listFiles :: "string \<Rightarrow> 'w \<Rightarrow> (js_error + string list) \<times> 'w"
  homedir :: "'w \<Rightarrow> js_error + string"
  selectAndConfigureAudioDevice :: "string \<Rightarrow> bool option \<Rightarrow> 'w \<Rightarrow> (js_error + string) \<times> 'w"
  path_join :: "string \<Rightarrow> string \<Rightarrow> string"
  path_extname :: "string \<Rightarrow> string"
  path_basename :: "string \<Rightarrow> string"
  cancellationName :: string
  userCancellationName :: string

definition new_UserCancellationError :: "'w collaborators \<Rightarrow> string \<Rightarrow> js_error" where
  "new_UserCancellationError C msg =
     \<lparr>err_class = UserCancellationError, err_name = userCancellationName C, err_message = msg\<rparr>"

definition new_CancellationError :: "'w collaborators \<Rightarrow> string \<Rightarrow> js_error" where
  "new_CancellationError C msg =
     \<lparr>err_class = CancellationError, err_name = cancellationName C, err_message = msg\<rparr>"

text \<open>What a command does to the outside, in order. Logging is left out.\<close>

datatype event =
    CountdownCreated int
  | CountdownStarted
  | CountdownStopped
  | ProcessAudioCalled audio_options
  | TranscribeCalled string transcribe_options
  | CommitCalled config
  | ReviewCalled config
  | IsDirectoryReadableCalled string
  | ListFilesCalled string
  | SelectDeviceCalled string "bool option"

type_synonym 'w state = "event list \<times> 'w"

definition emit :: "event \<Rightarrow> 'w state \<Rightarrow> 'w state" where
  "emit ev s = (fst s @ [ev], snd s)"

definition call :: "event \<Rightarrow> ('w \<Rightarrow> 'a \<times> 'w) \<Rightarrow> 'w state \<Rightarrow> 'a \<times> 'w state" where
  "call ev f s = (case f (snd s) of (r, w') \<Rightarrow> (r, (fst s @ [ev], w')))"

section \<open>Acquisition with the countdown timer\<close>

text \<open>
  Lines 38 to 65 of audio-commit.ts, and the same lines of audio-review.ts (375 to 402)
  on the \<^verbatim>\<open>audioReview\<close> block. \<open>countdown_for\<close> is the condition
  \<^verbatim>\<open>isRecording && maxRecordingTime && maxRecordingTime > 0\<close>: the duration when a timer is
  created. The \<^verbatim>\<open>finally\<close> clause runs on both outcomes of \<^verbatim>\<open>processAudio\<close>.
\<close>

definition countdown_for :: "'a audio_commit_config_scheme option \<Rightarrow> int option" where
  "countdown_for blk =
     (let maxRecordingTime = opt_maxRecordingTime blk;
          isRecording = \<not> truthy_str (opt_file blk)
      in if isRecording
         then (case maxRecordingTime of
                 None \<Rightarrow> None
               | Some n \<Rightarrow> if n \<noteq> 0 \<and> n > 0 then Some n else None)
         else None)"

definition audio_options_of :: "'a audio_commit_config_scheme option \<Rightarrow> config \<Rightarrow> audio_options" where
  "audio_options_of blk cfg =
     \<lparr>pa_file = opt_file blk,
      pa_maxRecordingTime = opt_maxRecordingTime blk,
      pa_outputDirectory = outputDir cfg,
      pa_debug = debug cfg\<rparr>"

definition acquire ::
  "'w collaborators \<Rightarrow> 'a audio_commit_config_scheme option \<Rightarrow> config \<Rightarrow> 'w state
     \<Rightarrow> (js_error + audio_result) \<times> 'w state" where
  "acquire C blk cfg s =
     (let countdownTimer = countdown_for blk;
          s1 = (case countdownTimer of
                  None \<Rightarrow> s
                | Some n \<Rightarrow> emit CountdownStarted (emit (CountdownCreated n) s))
      in case call (ProcessAudioCalled (audio_options_of blk cfg))
                (processAudio C (audio_options_of blk cfg)) s1 of
           (audioResult, s2) \<Rightarrow>
             (audioResult,
              (case countdownTimer of None \<Rightarrow> s2 | Some n \<Rightarrow> emit CountdownStopped s2)))"

text \<open>
  Step 2 of both commands: the path handed to transcription. The timestamped file
  name is asked for only in the last branch.
\<close>

definition resolve_audio_path ::
  "'w collaborators \<Rightarrow> 'a audio_commit_config_scheme option \<Rightarrow> config \<Rightarrow> audio_result
     \<Rightarrow> 'w \<Rightarrow> string" where
  "resolve_audio_path C blk cfg audioResult w =
     (if truthy_str (opt_file blk) then str_or (opt_file blk) []
      else if truthy_str (result_audioFilePath audioResult)
      then str_or (result_audioFilePath audioResult) []
      else path_join C (outputDir cfg) (getTimestampedAudioFilename C w))"

definition transcribe_options_of :: "'w collaborators \<Rightarrow> config \<Rightarrow> transcribe_options" where
  "transcribe_options_of C cfg =
     \<lparr>tr_model = ''whisper-1'',
      tr_debug = debug cfg,
      tr_storageDir = outputDir cfg,
      tr_archiveDir = path_join C (outputDir cfg) ''kodrdriv''\<rparr>"

section \<open>audio-commit\<close>

text \<open>
  \<^verbatim>\<open>audioContext = transcription.text\<close> followed by \<^verbatim>\<open>audioContext.trim()\<close>, with no check
  of the shape: reading \<^verbatim>\<open>text\<close> of undefined or null, and calling \<^verbatim>\<open>trim\<close> on anything
  but a string, throw a TypeError. The message of a TypeError is the engine's; the
  command only logs it.
\<close>

definition commit_text :: "js_value \<Rightarrow> js_error + string" where
  "commit_text transcription =
     (case transcription of
        JUndefined \<Rightarrow> Inl (new_TypeError ''Cannot read properties of undefined (reading text)'')
      | JNull \<Rightarrow> Inl (new_TypeError ''Cannot read properties of null (reading text)'')
      | JObj props \<Rightarrow>
          (case map_of props ''text'' of
             Some (JStr t) \<Rightarrow> Inr t
           | _ \<Rightarrow> Inl (new_TypeError ''audioContext.trim is not a function''))
      | _ \<Rightarrow> Inl (new_TypeError ''Cannot read properties of undefined (reading trim)''))"

text \<open>The body of the \<^verbatim>\<open>try\<close> block of \<^verbatim>\<open>executeInternal\<close> (lines 30 to 117).\<close>

definition commit_try :: "'w collaborators \<Rightarrow> config \<Rightarrow> 'w state \<Rightarrow> (js_error + string) \<times> 'w state" where
  "commit_try C cfg s =
     (case acquire C (audioCommit cfg) cfg s of
        (Inl e, s1) \<Rightarrow> (Inl e, s1)
      | (Inr audioResult, s1) \<Rightarrow>
          if cancelled audioResult = Some True
          then (Inl (new_UserCancellationError C ''Audio commit cancelled by user''), s1)
          else
            (let audioFilePath = resolve_audio_path C (audioCommit cfg) cfg audioResult (snd s1)
             in case call (TranscribeCalled audioFilePath (transcribe_options_of C cfg))
                       (transcribeAudio C audioFilePath (transcribe_options_of C cfg)) s1 of
                  (Inl e, s2) \<Rightarrow> (Inl e, s2)
                | (Inr transcription, s2) \<Rightarrow>
                    (case commit_text transcription of
                       Inl e \<Rightarrow> (Inl e, s2)
                     | Inr audioContext \<Rightarrow>
                         (Inr (if trim audioContext = [] then [] else audioContext), s2))))"

text \<open>
  The \<^verbatim>\<open>catch\<close> clause (lines 118 to 132): \<open>Inl\<close> is what it throws, \<open>Inr\<close> the
  \<^verbatim>\<open>audioContext\<close> it leaves.
\<close>

definition commit_catch :: "'w collaborators \<Rightarrow> js_error \<Rightarrow> js_error + string" where
  "commit_catch C error =
     (if err_class error = UserCancellationError then Inl error
      else if err_name error = ''CancellationError'' \<or> err_class error = CancellationError
      then Inl (new_UserCancellationError C (err_message error))
      else Inr [])"

text \<open>The config handed to \<^verbatim>\<open>executeCommit\<close> (lines 136 to 142).\<close>

definition commit_delegate_config :: "config \<Rightarrow> string \<Rightarrow> config" where
  "commit_delegate_config cfg audioContext =
     (let d = (if trim audioContext \<noteq> [] then trim audioContext
               else str_or (case commit cfg of None \<Rightarrow> None | Some c \<Rightarrow> direction c) [])
      in cfg\<lparr>commit :=
              Some (case commit cfg of
                      None \<Rightarrow> \<lparr>direction = Some d, commit_rest = []\<rparr>
                    | Some c \<Rightarrow> c\<lparr>direction := Some d\<rparr>)\<rparr>)"

definition executeInternal :: "'w collaborators \<Rightarrow> config \<Rightarrow> 'w state \<Rightarrow> (js_error + string) \<times> 'w state" where
  "executeInternal C cfg s =
     (if isDryRun cfg
      then (Inr ''DRY RUN: Would process audio, transcribe it, and generate commit message with audio context'', s)
      else
        (case (case commit_try C cfg s of
                 (Inl error, s1) \<Rightarrow> (commit_catch C error, s1)
               | (Inr audioContext, s1) \<Rightarrow> (Inr audioContext, s1)) of
           (Inl error, s1) \<Rightarrow> (Inl error, s1)
         | (Inr audioContext, s1) \<Rightarrow>
             call (CommitCalled (commit_delegate_config cfg audioContext))
               (executeCommit C (commit_delegate_config cfg audioContext)) s1))"

text \<open>The exported \<^verbatim>\<open>execute\<close> of audio-commit.ts: it logs and throws the error again.\<close>

definition audio_commit_execute :: "'w collaborators \<Rightarrow> config \<Rightarrow> 'w state \<Rightarrow> (js_error + string) \<times> 'w state" where
  "audio_commit_execute C cfg s =
     (case executeInternal C cfg s of
        (Inl error, s1) \<Rightarrow>
          (if err_class error = UserCancellationError then (Inl error, s1) else (Inl error, s1))
      | (Inr result, s1) \<Rightarrow> (Inr result, s1))"

section \<open>audio-review\<close>

definition js_falsy :: "js_value \<Rightarrow> bool" where
  "js_falsy v =
     (case v of
        JUndefined \<Rightarrow> True
      | JNull \<Rightarrow> True
      | JBool b \<Rightarrow> \<not> b
      | JNum n \<Rightarrow> n = 0
      | JStr t \<Rightarrow> t = []
      | JObj props \<Rightarrow> False)"

definition js_typeof :: "js_value \<Rightarrow> string" where
  "js_typeof v =
     (case v of
        JUndefined \<Rightarrow> ''undefined''
      | JNull \<Rightarrow> ''object''
      | JBool b \<Rightarrow> ''boolean''
      | JNum n \<Rightarrow> ''number''
      | JStr t \<Rightarrow> ''string''
      | JObj props \<Rightarrow> ''object'')"

text \<open>Reading a property of a value that is neither undefined nor null.\<close>

definition js_get :: "js_value \<Rightarrow> string \<Rightarrow> js_value" where
  "js_get v k =
     (case v of
        JObj props \<Rightarrow> (case map_of props k of None \<Rightarrow> JUndefined | Some x \<Rightarrow> x)
      | _ \<Rightarrow> JUndefined)"

text \<open>
  The validation of the transcription result and \<^verbatim>\<open>audioContext = transcription.text\<close>
  (lines 248 to 252 and 445 to 449 of audio-review.ts).
\<close>

definition review_text :: "js_value \<Rightarrow> js_error + string" where
  "review_text transcription =
     (if js_falsy transcription \<or> js_typeof transcription \<noteq> ''object''
         \<or> js_typeof (js_get transcription ''text'') \<noteq> ''string''
      then Inl (new_Error ''Invalid transcription result: missing or invalid text property'')
      else (case js_get transcription ''text'' of
              JStr t \<Rightarrow> Inr t
            | _ \<Rightarrow> Inl (new_Error ''Invalid transcription result: missing or invalid text property'')))"

text \<open>The \<^verbatim>\<open>review\<close> block both delegations build, given the \<^verbatim>\<open>note\<close>.\<close>

definition mapped_review :: "config \<Rightarrow> string \<Rightarrow> review_config" where
  "mapped_review cfg n =
     \<lparr>includeCommitHistory = (case audioReview cfg of None \<Rightarrow> None | Some a \<Rightarrow> ar_includeCommitHistory a),
      includeRecentDiffs = (case audioReview cfg of None \<Rightarrow> None | Some a \<Rightarrow> ar_includeRecentDiffs a),
      includeReleaseNotes = (case audioReview cfg of None \<Rightarrow> None | Some a \<Rightarrow> ar_includeReleaseNotes a),
      includeGithubIssues = (case audioReview cfg of None \<Rightarrow> None | Some a \<Rightarrow> ar_includeGithubIssues a),
      commitHistoryLimit = (case audioReview cfg of None \<Rightarrow> None | Some a \<Rightarrow> ar_commitHistoryLimit a),
      diffHistoryLimit = (case audioReview cfg of None \<Rightarrow> None | Some a \<Rightarrow> ar_diffHistoryLimit a),
      releaseNotesLimit = (case audioReview cfg of None \<Rightarrow> None | Some a \<Rightarrow> ar_releaseNotesLimit a),
      githubIssuesLimit = (case audioReview cfg of None \<Rightarrow> None | Some a \<Rightarrow> ar_githubIssuesLimit a),
      sendit = (case audioReview cfg of None \<Rightarrow> None | Some a \<Rightarrow> ar_sendit a),
      rv_context = (case audioReview cfg of None \<Rightarrow> None | Some a \<Rightarrow> ar_context a),
      rv_note = Some n,
      review_rest = []\<rparr>"

definition nl :: string where
  "nl = [CHR 0x0A]"

definition AUDIO_EXTENSIONS :: "string list" where
  "AUDIO_EXTENSIONS = [''.wav'', ''.mp3'', ''.m4a'', ''.aac'', ''.flac'', ''.ogg'', ''.wma'']"

text \<open>\<^verbatim>\<open>discoverAudioFiles\<close>: the \<^verbatim>\<open>catch\<close> clause logs and throws the error again.\<close>

definition discoverAudioFiles ::
  "'w collaborators \<Rightarrow> string \<Rightarrow> 'w state \<Rightarrow> (js_error + string list) \<times> 'w state" where
  "discoverAudioFiles C dir s =
     (case call (IsDirectoryReadableCalled dir) (isDirectoryReadable C dir) s of
        (Inl error, s1) \<Rightarrow> (Inl error, s1)
      | (Inr readable, s1) \<Rightarrow>
          if \<not> readable then (Inl (new_Error (''Directory not readable: '' @ dir)), s1)
          else
            (case call (ListFilesCalled dir) (listFiles C dir) s1 of
               (Inl error, s2) \<Rightarrow> (Inl error, s2)
             | (Inr allFiles, s2) \<Rightarrow>
                 (Inr (sort (map (\<lambda>f. path_join C dir f)
                         (filter (\<lambda>f. toLowerCase (path_extname C f) \<in> set AUDIO_EXTENSIONS) allFiles))),
                  s2)))"

text \<open>
  \<^verbatim>\<open>processSingleAudioFile\<close>: \<open>single_file_try\<close> is the body of its \<^verbatim>\<open>try\<close> block, and the
  \<^verbatim>\<open>catch\<close> clause turns whatever was thrown into the returned string.
\<close>

definition single_file_note :: "'w collaborators \<Rightarrow> string \<Rightarrow> string \<Rightarrow> string" where
  "single_file_note C audioFilePath audioContext =
     ''Audio Review from '' @ path_basename C audioFilePath @ '':'' @ nl @ nl @ trim audioContext"

definition single_file_try ::
  "'w collaborators \<Rightarrow> string \<Rightarrow> config \<Rightarrow> 'w state \<Rightarrow> (js_error + string) \<times> 'w state" where
  "single_file_try C audioFilePath cfg s =
     (case call (TranscribeCalled audioFilePath (transcribe_options_of C cfg))
             (transcribeAudio C audioFilePath (transcribe_options_of C cfg)) s of
        (Inl error, s1) \<Rightarrow> (Inl error, s1)
      | (Inr transcription, s1) \<Rightarrow>
          (case review_text transcription of
             Inl error \<Rightarrow> (Inl error, s1)
           | Inr audioContext \<Rightarrow>
               if trim audioContext = [] then (Inr [], s1)
               else
                 (let cfg' = cfg\<lparr>review := Some (mapped_review cfg (single_file_note C audioFilePath audioContext))\<rparr>
                  in call (ReviewCalled cfg') (executeReview C cfg') s1)))"

definition processSingleAudioFile ::
  "'w collaborators \<Rightarrow> string \<Rightarrow> config \<Rightarrow> 'w state \<Rightarrow> string \<times> 'w state" where
  "processSingleAudioFile C audioFilePath cfg s =
     (case single_file_try C audioFilePath cfg s of
        (Inl error, s1) \<Rightarrow>
          (''Failed to process '' @ path_basename C audioFilePath @ '': '' @ err_message error, s1)
      | (Inr result, s1) \<Rightarrow> (result, s1))"

text \<open>The \<^verbatim>\<open>for\<close> loop of the batch mode (lines 323 to 334), over the files still to do.\<close>

fun batch_loop ::
  "'w collaborators \<Rightarrow> config \<Rightarrow> string list \<Rightarrow> string list \<Rightarrow> 'w state \<Rightarrow> string list \<times> 'w state" where
  "batch_loop C cfg [] results s = (results, s)"
| "batch_loop C cfg (audioFile # rest) results s =
     (case processSingleAudioFile C audioFile cfg s of
        (result, s1) \<Rightarrow>
          batch_loop C cfg rest
            (results @ [''File: '' @ path_basename C audioFile @ nl @ result]) s1)"

definition batch_execute ::
  "'w collaborators \<Rightarrow> string \<Rightarrow> config \<Rightarrow> 'w state \<Rightarrow> (js_error + string) \<times> 'w state" where
  "batch_execute C dir cfg s =
     (case discoverAudioFiles C dir s of
        (Inl error, s1) \<Rightarrow> (Inl error, s1)
      | (Inr audioFiles, s1) \<Rightarrow>
          if length audioFiles = 0 then (Inr ''No audio files found to process'', s1)
          else
            (case batch_loop C cfg audioFiles [] s1 of
               (results, s2) \<Rightarrow>
                 (Inr (''Batch Audio Review Results ('' @ show_nat (length audioFiles) @ '' files):''
                       @ nl @ nl @ js_join (nl @ nl @ ''---'' @ nl @ nl) results),
                  s2)))"

text \<open>The single file and recording mode: the \<^verbatim>\<open>try\<close> block (lines 367 to 457).\<close>

definition review_try :: "'w collaborators \<Rightarrow> config \<Rightarrow> 'w state \<Rightarrow> (js_error + string) \<times> 'w state" where
  "review_try C cfg s =
     (case acquire C (audioReview cfg) cfg s of
        (Inl e, s1) \<Rightarrow> (Inl e, s1)
      | (Inr audioResult, s1) \<Rightarrow>
          if cancelled audioResult = Some True
          then (Inl (new_CancellationError C ''Audio review cancelled by user''), s1)
          else
            (let audioFilePath = resolve_audio_path C (audioReview cfg) cfg audioResult (snd s1)
             in case call (TranscribeCalled audioFilePath (transcribe_options_of C cfg))
                       (transcribeAudio C audioFilePath (transcribe_options_of C cfg)) s1 of
                  (Inl e, s2) \<Rightarrow> (Inl e, s2)
                | (Inr transcription, s2) \<Rightarrow>
                    (case review_text transcription of
                       Inl e \<Rightarrow> (Inl e, s2)
                     | Inr audioContext \<Rightarrow>
                         (Inr (if trim audioContext = [] then [] else audioContext), s2))))"

text \<open>The \<^verbatim>\<open>catch\<close> clause (lines 459 to 468).\<close>

definition review_catch :: "js_error \<Rightarrow> js_error + string" where
  "review_catch error = (if err_name error = ''CancellationError'' then Inl error else Inr [])"

text \<open>The config handed to \<^verbatim>\<open>executeReview\<close> (lines 472 to 489).\<close>

definition review_delegate_config :: "config \<Rightarrow> string \<Rightarrow> config" where
  "review_delegate_config cfg audioContext =
     cfg\<lparr>review :=
           Some (mapped_review cfg
             (if trim audioContext \<noteq> [] then trim audioContext
              else str_or (case review cfg of None \<Rightarrow> None | Some r \<Rightarrow> rv_note r) []))\<rparr>"

definition review_single :: "'w collaborators \<Rightarrow> config \<Rightarrow> 'w state \<Rightarrow> (js_error + string) \<times> 'w state" where
  "review_single C cfg s =
     (case (case review_try C cfg s of
              (Inl error, s1) \<Rightarrow> (review_catch error, s1)
            | (Inr audioContext, s1) \<Rightarrow> (Inr audioContext, s1)) of
        (Inl error, s1) \<Rightarrow> (Inl error, s1)
      | (Inr audioContext, s1) \<Rightarrow>
          call (ReviewCalled (review_delegate_config cfg audioContext))
            (executeReview C (review_delegate_config cfg audioContext)) s1)"

definition opt_directory :: "config \<Rightarrow> string option" where
  "opt_directory cfg = (case audioReview cfg of None \<Rightarrow> None | Some a \<Rightarrow> directory a)"

text \<open>The exported \<^verbatim>\<open>execute\<close> of audio-review.ts.\<close>

definition audio_review_execute :: "'w collaborators \<Rightarrow> config \<Rightarrow> 'w state \<Rightarrow> (js_error + string) \<times> 'w state" where
  "audio_review_execute C cfg s =
     (if truthy_str (opt_directory cfg)
      then (if isDryRun cfg
            then (Inr ''DRY RUN: Directory batch processing would be performed'', s)
            else batch_execute C (str_or (opt_directory cfg) []) cfg s)
      else if isDryRun cfg
      then (Inr ''DRY RUN: Would process audio, transcribe it, and perform review analysis with audio context'', s)
      else review_single C cfg s)"

section \<open>select-audio\<close>

definition getUnplayableConfigPath :: "'w collaborators \<Rightarrow> 'w \<Rightarrow> js_error + string" where
  "getUnplayableConfigPath C w =
     (case homedir C w of
        Inl error \<Rightarrow> Inl (new_Error (''Failed to determine home directory: '' @ err_message error))
      | Inr h \<Rightarrow> Inr (path_join C (path_join C h ''.unplayable'') ''audio-device.json''))"

text \<open>What the \<^verbatim>\<open>catch\<close> clause of the live branch throws (lines 167 to 177).\<close>

definition select_catch :: "js_error \<Rightarrow> js_error" where
  "select_catch error =
     (if err_message error \<noteq> [] \<and> sublist ''Failed to determine home directory'' (err_message error)
      then new_Error (''Failed to determine home directory: '' @ err_message error)
      else new_Error (''Audio device selection failed: ''
             @ (if err_message error \<noteq> [] then err_message error else error_toString error)))"

definition select_audio_execute :: "'w collaborators \<Rightarrow> config \<Rightarrow> 'w state \<Rightarrow> (js_error + string) \<times> 'w state" where
  "select_audio_execute C cfg s =
     (if isDryRun cfg
      then (case getUnplayableConfigPath C (snd s) of
              Inr configPath \<Rightarrow> (Inr ''Audio device selection completed (dry run)'', s)
            | Inl error \<Rightarrow> (Inr ''Audio device selection completed (dry run)'', s))
      else
        (case (case homedir C (snd s) of
                 Inl error \<Rightarrow> (Inl error, s)
               | Inr h \<Rightarrow>
                   call (SelectDeviceCalled (path_join C h ''.unplayable'') (debug cfg))
                     (selectAndConfigureAudioDevice C (path_join C h ''.unplayable'') (debug cfg)) s) of
           (Inl error, s1) \<Rightarrow> (Inl (select_catch error), s1)
         | (Inr result, s1) \<Rightarrow> (Inr result, s1)))"

section \<open>Reading the trace\<close>

definition is_delegation :: "event \<Rightarrow> bool" where
  "is_delegation ev = (case ev of CommitCalled c \<Rightarrow> True | ReviewCalled c \<Rightarrow> True | _ \<Rightarrow> False)"


definition is_created :: "event \<Rightarrow> bool" where
  "is_created ev = (case ev of CountdownCreated n \<Rightarrow> True | _ \<Rightarrow> False)"

definition is_stopped :: "event \<Rightarrow> bool" where
  "is_stopped ev = (case ev of CountdownStopped \<Rightarrow> True | _ \<Rightarrow> False)"

text \<open>The paths transcription was called on, in order.\<close>

fun transcribed_paths :: "event list \<Rightarrow> string list" where
  "transcribed_paths [] = []"
| "transcribed_paths (TranscribeCalled p opts # evs) = p # transcribed_paths evs"
| "transcribed_paths (ev # evs) = transcribed_paths evs"

text \<open>
  The errors each single file flow treats as a cancellation: the tests of the two
  \<^verbatim>\<open>catch\<close> clauses.
\<close>

definition commit_is_cancellation :: "js_error \<Rightarrow> bool" where
  "commit_is_cancellation e =
     (err_class e = UserCancellationError \<or> err_name e = ''CancellationError''
        \<or> err_class e = CancellationError)"

definition review_is_cancellation :: "js_error \<Rightarrow> bool" where
  "review_is_cancellation e = (err_name e = ''CancellationError'')"

text \<open>
  An extension is on the allow-list, compared without regard to case: it has the
  lower-case form of one of the listed extensions.
\<close>

definition audio_extension :: "string \<Rightarrow> bool" where
  "audio_extension ext = (\<exists>a \<in> set AUDIO_EXTENSIONS. toLowerCase ext = toLowerCase a)"





section \<open>The batch item as the specification words it\<close>


section \<open>Sample collaborators and configs\<close>

text \<open>
  Path functions for a directory and plain entry names: the last segment, its
  extension from the last dot (none when the dot is missing or leads the name), and
  joining with a slash.
\<close>

definition simple_basename :: "string \<Rightarrow> string" where
  "simple_basename p = rev (takeWhile (\<lambda>c. c \<noteq> CHR ''/'') (rev p))"

definition simple_extname :: "string \<Rightarrow> string" where
  "simple_extname p =
     (let b = simple_basename p; e = rev (takeWhile (\<lambda>c. c \<noteq> CHR ''.'') (rev b))
      in if length e = length b \<or> length e + 1 = length b then [] else CHR ''.'' # e)"

definition simple_join :: "string \<Rightarrow> string \<Rightarrow> string" where
  "simple_join d f = d @ ''/'' @ f"

text \<open>
  The collaborators as the test suites mock them; the world counts the calls. The
  mocked transcription resolves to a bare string, which is not of the expected shape.
\<close>

definition mock :: "nat collaborators" where
  "mock =
     \<lparr>processAudio = (\<lambda>opts w. (Inr \<lparr>cancelled = None, result_audioFilePath = None\<rparr>, Suc w)),
      transcribeAudio = (\<lambda>p opts w. (Inr (JStr ''Mock transcription of audio''), Suc w)),
      executeCommit = (\<lambda>cfg w. (Inr ''Mock commit message generated'', Suc w)),
      executeReview = (\<lambda>cfg w. (Inr ''Mock review generated'', Suc w)),
      getTimestampedAudioFilename = (\<lambda>w. ''audio-20260110-120000.wav''),
      isDirectoryReadable = (\<lambda>d w. (Inr True, Suc w)),
      listFiles = (\<lambda>d w. (Inr [''file1.wav'', ''file2.wav''], Suc w)),
      homedir = (\<lambda>w. Inr ''/home/dev''),
      selectAndConfigureAudioDevice = (\<lambda>d dbg w. (Inr ''Device configured successfully'', Suc w)),
      path_join = simple_join,
      path_extname = simple_extname,
      path_basename = simple_basename,
      cancellationName = ''CancellationError'',
      userCancellationName = ''UserCancellationError''\<rparr>"

definition base_config :: config where
  "base_config =
     \<lparr>dryRun = None, debug = None, outputDirectory = None, audioCommit = None,
      audioReview = None, commit = None, review = None,
      config_rest = [(''model'', JStr ''gpt-4'')]\<rparr>"

definition base_audio_review :: audio_review_config where
  "base_audio_review =
     \<lparr>audio_file = None, maxRecordingTime = None, directory = None,
      ar_includeCommitHistory = None, ar_includeRecentDiffs = None,
      ar_includeReleaseNotes = None, ar_includeGithubIssues = None,
      ar_commitHistoryLimit = None, ar_diffHistoryLimit = None,
      ar_releaseNotesLimit = None, ar_githubIssuesLimit = None,
      ar_sendit = None, ar_context = None\<rparr>"

definition base_review :: review_config where
  "base_review =
     \<lparr>includeCommitHistory = None, includeRecentDiffs = None, includeReleaseNotes = None,
      includeGithubIssues = None, commitHistoryLimit = None, diffHistoryLimit = None,
      releaseNotesLimit = None, githubIssuesLimit = None, sendit = None,
      rv_context = None, rv_note = None, review_rest = []\<rparr>"

definition recording_config :: config where
  "recording_config =
     base_config
       \<lparr>audioCommit := Some \<lparr>audio_file = None, maxRecordingTime = Some 60\<rparr>,
        audioReview := Some (base_audio_review\<lparr>maxRecordingTime := Some 60\<rparr>)\<rparr>"

text \<open>The mocked collaborators with a recording the user cancels.\<close>

definition cancelling :: "nat collaborators" where
  "cancelling =
     mock\<lparr>processAudio :=
            (\<lambda>opts w. (Inr \<lparr>cancelled = Some True, result_audioFilePath = None\<rparr>, Suc w))\<rparr>"

text \<open>The mocked collaborators with a failing device selection, and with a directory listing.\<close>

definition failing_select :: "nat collaborators" where
  "failing_select =
     mock\<lparr>selectAndConfigureAudioDevice :=
            (\<lambda>d dbg w. (Inl (new_Error ''Device selection failed''), Suc w))\<rparr>"

definition listing :: "nat collaborators" where
  "listing = mock\<lparr>listFiles := (\<lambda>d w. (Inr [''b.wav'', ''a.mp3'', ''notes.txt'', ''C.WAV''], Suc w))\<rparr>"

text \<open>
  A config with a commit direction and a review note already set, and an error of the
  legacy cancellation class as acquisition may throw it.
\<close>

definition directed_config :: config where
  "directed_config =
     base_config
       \<lparr>commit := Some \<lparr>direction = Some ''fix typo'', commit_rest = [(''sendit'', JBool True)]\<rparr>,
        review := Some (base_review\<lparr>rv_note := Some ''check naming''\<rparr>)\<rparr>"

definition legacy_cancel :: js_error where
  "legacy_cancel =
     \<lparr>err_class = CancellationError, err_name = ''CancellationError'', err_message = ''stop''\<rparr>"

definition legacy_cancelling :: "nat collaborators" where
  "legacy_cancelling = mock\<lparr>processAudio := (\<lambda>opts w. (Inl legacy_cancel, Suc w))\<rparr>"

text \<open>A config naming a file, and the mocked collaborators reporting the recorded path.\<close>

definition file_config :: config where
  "file_config =
     base_config
       \<lparr>audioCommit := Some \<lparr>audio_file = Some ''/a.wav'', maxRecordingTime = None\<rparr>,
        audioReview := Some (base_audio_review\<lparr>audio_file := Some ''/a.wav''\<rparr>)\<rparr>"

definition reporting :: "nat collaborators" where
  "reporting =
     mock\<lparr>processAudio :=
            (\<lambda>opts w. (Inr \<lparr>cancelled = Some False, result_audioFilePath = Some ''/tmp/rec.wav''\<rparr>, Suc w))\<rparr>"



definition speaking :: "nat collaborators" where
  "speaking =
     mock\<lparr>transcribeAudio :=
            (\<lambda>p opts w. (Inr (JObj [(''text'', JStr '' rename the helper '')]), Suc w))\<rparr>"


text \<open>A config whose review block holds a field outside the mapped set.\<close>

definition extra_review_config :: config where
  "extra_review_config =
     base_config\<lparr>review := Some (base_review\<lparr>review_rest := [(''custom'', JBool True)]\<rparr>)\<rparr>"

section \<open>Calls, acquisition and the countdown timer\<close>


lemma call_eq: "call ev f (tr, w) = (fst (f w), (tr @ [ev], snd (f w)))"
  by (simp add: call_def split: prod.splits)

lemma acquire_eq:
  "acquire C blk cfg (tr, w) =
     (fst (processAudio C (audio_options_of blk cfg) w),
      (tr @ (case countdown_for blk of None \<Rightarrow> [] | Some n \<Rightarrow> [CountdownCreated n, CountdownStarted])
          @ [ProcessAudioCalled (audio_options_of blk cfg)]
          @ (case countdown_for blk of None \<Rightarrow> [] | Some n \<Rightarrow> [CountdownStopped]),
       snd (processAudio C (audio_options_of blk cfg) w)))"
  by (simp add: acquire_def call_eq emit_def split: option.splits)

lemma countdown_for_eq:
  "countdown_for blk =
     (if truthy_str (opt_file blk) then None
      else case opt_maxRecordingTime blk of None \<Rightarrow> None | Some n \<Rightarrow> if 0 < n then Some n else None)"
  by (auto simp: countdown_for_def split: option.splits)

lemma commit_try_created:
  "length (filter is_created (fst (snd (commit_try C cfg (tr, w))))) =
     length (filter is_created tr) + (case countdown_for (audioCommit cfg) of None \<Rightarrow> 0 | Some n \<Rightarrow> 1)"
  by (simp add: commit_try_def acquire_eq call_eq is_created_def Let_def
      split: sum.splits option.splits)

lemma commit_try_stopped:
  "length (filter is_stopped (fst (snd (commit_try C cfg (tr, w))))) =
     length (filter is_stopped tr) + (case countdown_for (audioCommit cfg) of None \<Rightarrow> 0 | Some n \<Rightarrow> 1)"
  by (simp add: commit_try_def acquire_eq call_eq is_stopped_def Let_def
      split: sum.splits option.splits)

lemma review_try_created:
  "length (filter is_created (fst (snd (review_try C cfg (tr, w))))) =
     length (filter is_created tr) + (case countdown_for (audioReview cfg) of None \<Rightarrow> 0 | Some n \<Rightarrow> 1)"
  by (simp add: review_try_def acquire_eq call_eq is_created_def Let_def
      split: sum.splits option.splits)

lemma review_try_stopped:
  "length (filter is_stopped (fst (snd (review_try C cfg (tr, w))))) =
     length (filter is_stopped tr) + (case countdown_for (audioReview cfg) of None \<Rightarrow> 0 | Some n \<Rightarrow> 1)"
  by (simp add: review_try_def acquire_eq call_eq is_stopped_def Let_def
      split: sum.splits option.splits)

text \<open>After its try block a live run adds at most the delegation call.\<close>

lemma audio_commit_execute_trace:
  "\<not> isDryRun cfg \<Longrightarrow>
   \<exists>evs. fst (snd (audio_commit_execute C cfg s)) = fst (snd (commit_try C cfg s)) @ evs
     \<and> (evs = [] \<or> (\<exists>c. evs = [CommitCalled c]))"
  by (cases s)
    (auto simp: audio_commit_execute_def executeInternal_def call_eq split: sum.splits prod.splits)

lemma review_single_trace:
  "\<exists>evs. fst (snd (review_single C cfg s)) = fst (snd (review_try C cfg s)) @ evs
     \<and> (evs = [] \<or> (\<exists>c. evs = [ReviewCalled c]))"
  by (cases s) (auto simp: review_single_def call_eq split: sum.splits prod.splits)

lemma audio_review_execute_single:
  "\<not> isDryRun cfg \<Longrightarrow> \<not> truthy_str (opt_directory cfg) \<Longrightarrow>
   audio_review_execute C cfg s = review_single C cfg s"
  by (simp add: audio_review_execute_def)

text \<open>
  C6: the acquisition phase creates a countdown timer exactly when no file is supplied
  and \<^verbatim>\<open>maxRecordingTime\<close> is a positive number, and then exactly one; the timer is
  started before \<^verbatim>\<open>processAudio\<close> is called and stopped once after it, whatever
  \<^verbatim>\<open>processAudio\<close> answers: a result, a cancelled result or an error. A whole live run of
  either command creates and stops as many timers as its acquisition phase.
\<close>

theorem countdown_created_and_stopped_once:
  "acquire C blk cfg (tr, w) =
     (fst (processAudio C (audio_options_of blk cfg) w),
      (tr @ (case countdown_for blk of None \<Rightarrow> [] | Some n \<Rightarrow> [CountdownCreated n, CountdownStarted])
          @ [ProcessAudioCalled (audio_options_of blk cfg)]
          @ (case countdown_for blk of None \<Rightarrow> [] | Some n \<Rightarrow> [CountdownStopped]),
       snd (processAudio C (audio_options_of blk cfg) w)))
   \<and> countdown_for blk =
       (if truthy_str (opt_file blk) then None
        else case opt_maxRecordingTime blk of
               None \<Rightarrow> None
             | Some n \<Rightarrow> if 0 < n then Some n else None)
   \<and> (\<not> isDryRun cfg \<longrightarrow>
        length (filter is_created (fst (snd (audio_commit_execute C cfg (tr, w))))) =
          length (filter is_created tr)
            + (case countdown_for (audioCommit cfg) of None \<Rightarrow> 0 | Some n \<Rightarrow> 1)
        \<and> length (filter is_stopped (fst (snd (audio_commit_execute C cfg (tr, w))))) =
          length (filter is_stopped tr)
            + (case countdown_for (audioCommit cfg) of None \<Rightarrow> 0 | Some n \<Rightarrow> 1))
   \<and> (\<not> isDryRun cfg \<and> \<not> truthy_str (opt_directory cfg) \<longrightarrow>
        length (filter is_created (fst (snd (audio_review_execute C cfg (tr, w))))) =
          length (filter is_created tr)
            + (case countdown_for (audioReview cfg) of None \<Rightarrow> 0 | Some n \<Rightarrow> 1)
        \<and> length (filter is_stopped (fst (snd (audio_review_execute C cfg (tr, w))))) =
          length (filter is_stopped tr)
            + (case countdown_for (audioReview cfg) of None \<Rightarrow> 0 | Some n \<Rightarrow> 1))"
proof (intro conjI impI)
  show "acquire C blk cfg (tr, w) =
     (fst (processAudio C (audio_options_of blk cfg) w),
      (tr @ (case countdown_for blk of None \<Rightarrow> [] | Some n \<Rightarrow> [CountdownCreated n, CountdownStarted])
          @ [ProcessAudioCalled (audio_options_of blk cfg)]
          @ (case countdown_for blk of None \<Rightarrow> [] | Some n \<Rightarrow> [CountdownStopped]),
       snd (processAudio C (audio_options_of blk cfg) w)))"
    by (rule acquire_eq)
  show "countdown_for blk =
       (if truthy_str (opt_file blk) then None
        else case opt_maxRecordingTime blk of
               None \<Rightarrow> None
             | Some n \<Rightarrow> if 0 < n then Some n else None)"
    by (rule countdown_for_eq)
next
  assume live: "\<not> isDryRun cfg"
  from audio_commit_execute_trace [OF live, of C "(tr, w)"]
  obtain evs where evs:
    "fst (snd (audio_commit_execute C cfg (tr, w))) = fst (snd (commit_try C cfg (tr, w))) @ evs"
    "evs = [] \<or> (\<exists>c. evs = [CommitCalled c])"
    by blast
  from evs(2) have none: "filter is_created evs = []" "filter is_stopped evs = []"
    by (auto simp: is_created_def is_stopped_def)
  show "length (filter is_created (fst (snd (audio_commit_execute C cfg (tr, w))))) =
          length (filter is_created tr)
            + (case countdown_for (audioCommit cfg) of None \<Rightarrow> 0 | Some n \<Rightarrow> 1)"
    using evs(1) none(1) commit_try_created [of C cfg tr w] by simp
  show "length (filter is_stopped (fst (snd (audio_commit_execute C cfg (tr, w))))) =
          length (filter is_stopped tr)
            + (case countdown_for (audioCommit cfg) of None \<Rightarrow> 0 | Some n \<Rightarrow> 1)"
    using evs(1) none(2) commit_try_stopped [of C cfg tr w] by simp
next
  assume live: "\<not> isDryRun cfg \<and> \<not> truthy_str (opt_directory cfg)"
  then have single: "audio_review_execute C cfg (tr, w) = review_single C cfg (tr, w)"
    by (simp add: audio_review_execute_single)
  from review_single_trace [of C cfg "(tr, w)"]
  obtain evs where evs:
    "fst (snd (review_single C cfg (tr, w))) = fst (snd (review_try C cfg (tr, w))) @ evs"
    "evs = [] \<or> (\<exists>c. evs = [ReviewCalled c])"
    by blast
  from evs(2) have none: "filter is_created evs = []" "filter is_stopped evs = []"
    by (auto simp: is_created_def is_stopped_def)
  show "length (filter is_created (fst (snd (audio_review_execute C cfg (tr, w))))) =
          length (filter is_created tr)
            + (case countdown_for (audioReview cfg) of None \<Rightarrow> 0 | Some n \<Rightarrow> 1)"
    using single evs(1) none(1) review_try_created [of C cfg tr w] by simp
  show "length (filter is_stopped (fst (snd (audio_review_execute C cfg (tr, w))))) =
          length (filter is_stopped tr)
            + (case countdown_for (audioReview cfg) of None \<Rightarrow> 0 | Some n \<Rightarrow> 1)"
    using single evs(1) none(2) review_try_stopped [of C cfg tr w] by simp
qed


theorem countdown_created_and_stopped_once_witness:
  "\<not> isDryRun recording_config \<and> \<not> truthy_str (opt_directory recording_config)
   \<and> countdown_for (audioCommit recording_config) = Some 60
   \<and> countdown_for (audioReview recording_config) = Some 60
   \<and> length (filter is_created (fst (snd (audio_commit_execute cancelling recording_config ([], 0))))) = 1
   \<and> length (filter is_stopped (fst (snd (audio_commit_execute cancelling recording_config ([], 0))))) = 1
   \<and> length (filter is_created (fst (snd (audio_review_execute cancelling recording_config ([], 0))))) = 1
   \<and> length (filter is_stopped (fst (snd (audio_review_execute cancelling recording_config ([], 0))))) = 1"
proof -
  have live: "\<not> isDryRun recording_config" "\<not> truthy_str (opt_directory recording_config)"
    by (simp_all add: recording_config_def base_config_def base_audio_review_def isDryRun_def
        opt_directory_def truthy_str_def)
  have c: "countdown_for (audioCommit recording_config) = Some 60"
    by (simp add: recording_config_def base_config_def countdown_for_def opt_file_def
        opt_maxRecordingTime_def truthy_str_def)
  have r: "countdown_for (audioReview recording_config) = Some 60"
    by (simp add: recording_config_def base_config_def base_audio_review_def countdown_for_def
        opt_file_def opt_maxRecordingTime_def truthy_str_def)
  show ?thesis
    using live c r
      countdown_created_and_stopped_once
        [of cancelling "audioCommit recording_config" recording_config "[]" 0]
    by simp
qed

section \<open>Dry run\<close>

lemma dry_run_marker:
  "sublist ''DRY RUN'' ''DRY RUN: Would process audio, transcribe it, and generate commit message with audio context''"
  "sublist ''transcribe'' ''DRY RUN: Would process audio, transcribe it, and generate commit message with audio context''"
  "sublist ''DRY RUN'' ''DRY RUN: Directory batch processing would be performed''"
  "sublist ''DRY RUN'' ''DRY RUN: Would process audio, transcribe it, and perform review analysis with audio context''"
  by code_simp+

text \<open>
  C5: with \<^verbatim>\<open>dryRun\<close> set, audio-commit and audio-review (with or without a directory)
  return at once: the trace and the world are as before the call, so no acquisition,
  transcription or delegation collaborator was called, and the returned string contains
  the marker DRY RUN; the string of the commit flow also contains the word transcribe.
\<close>

theorem dry_run_calls_nothing:
  assumes "isDryRun cfg"
  shows "(\<exists>r. audio_commit_execute C cfg s = (Inr r, s)
            \<and> sublist ''DRY RUN'' r \<and> sublist ''transcribe'' r)
       \<and> (\<exists>r. audio_review_execute C cfg s = (Inr r, s) \<and> sublist ''DRY RUN'' r)"
  using assms dry_run_marker
  by (simp add: audio_commit_execute_def executeInternal_def audio_review_execute_def)

theorem dry_run_calls_nothing_witness:
  "isDryRun (base_config\<lparr>dryRun := Some True\<rparr>)
   \<and> (\<exists>r. audio_commit_execute mock (base_config\<lparr>dryRun := Some True\<rparr>) ([], 0) = (Inr r, ([], 0))
          \<and> sublist ''DRY RUN'' r \<and> sublist ''transcribe'' r)
   \<and> (\<exists>r. audio_review_execute mock (base_config\<lparr>dryRun := Some True\<rparr>) ([], 0) = (Inr r, ([], 0))
          \<and> sublist ''DRY RUN'' r)"
proof -
  have dry: "isDryRun (base_config\<lparr>dryRun := Some True\<rparr>)"
    by (simp add: isDryRun_def)
  from dry dry_run_calls_nothing [OF dry, of mock "([], 0)"] show ?thesis
    by blast
qed

section \<open>select-audio\<close>

lemma select_catch_message:
  "err_message (select_catch e) =
     (if sublist ''Failed to determine home directory'' (err_message e)
      then ''Failed to determine home directory: '' @ err_message e
      else ''Audio device selection failed: ''
             @ (if err_message e \<noteq> [] then err_message e else error_toString e))"
  by (auto simp: select_catch_def new_Error_def)

text \<open>
  C10: when select-audio runs live and the device selection collaborator throws, the
  command throws an Error. Its message starts with the home directory prefix when the
  collaborator's message contains that phrase, and otherwise with the selection failure
  prefix followed by the collaborator's message.
\<close>

theorem select_audio_reports_failure:
  assumes "\<not> isDryRun cfg"
    and "homedir C w = Inr h"
    and "selectAndConfigureAudioDevice C (path_join C h ''.unplayable'') (debug cfg) w = (Inl e, w')"
  shows "\<exists>e'. fst (select_audio_execute C cfg (tr, w)) = Inl e'
           \<and> err_class e' = OtherError \<and> err_name e' = ''Error''
           \<and> (if sublist ''Failed to determine home directory'' (err_message e)
               then prefix ''Failed to determine home directory: '' (err_message e')
               else prefix (''Audio device selection failed: '' @ err_message e) (err_message e'))"
proof -
  have run: "select_audio_execute C cfg (tr, w) =
      (Inl (select_catch e), (tr @ [SelectDeviceCalled (path_join C h ''.unplayable'') (debug cfg)], w'))"
    using assms by (simp add: select_audio_execute_def call_eq)
  have cls: "err_class (select_catch e) = OtherError" "err_name (select_catch e) = ''Error''"
    by (simp_all add: select_catch_def new_Error_def)
  show ?thesis
    using run cls by (auto simp: select_catch_message prefix_def)
qed

theorem select_audio_reports_failure_witness:
  "\<not> isDryRun base_config
   \<and> homedir failing_select 0 = Inr ''/home/dev''
   \<and> selectAndConfigureAudioDevice failing_select
        (path_join failing_select ''/home/dev'' ''.unplayable'') (debug base_config) 0 =
       (Inl (new_Error ''Device selection failed''), 1)
   \<and> (\<exists>e'. fst (select_audio_execute failing_select base_config ([], 0)) = Inl e'
         \<and> err_class e' = OtherError \<and> err_name e' = ''Error''
         \<and> prefix ''Audio device selection failed: Device selection failed'' (err_message e'))"
proof -
  have live: "\<not> isDryRun base_config"
    by (simp add: isDryRun_def base_config_def)
  have h: "homedir failing_select 0 = Inr ''/home/dev''"
    by (simp add: failing_select_def mock_def)
  have f: "selectAndConfigureAudioDevice failing_select
        (path_join failing_select ''/home/dev'' ''.unplayable'') (debug base_config) 0 =
       (Inl (new_Error ''Device selection failed''), 1)"
    by (simp add: failing_select_def mock_def)
  have n: "\<not> sublist ''Failed to determine home directory'' (err_message (new_Error ''Device selection failed''))"
    unfolding new_Error_def by code_simp
  from select_audio_reports_failure [OF live h f, of "[]"] n live h f show ?thesis
    by (simp add: new_Error_def)
qed

section \<open>Batch discovery\<close>

lemma audio_extension_iff:
  "audio_extension ext \<longleftrightarrow> toLowerCase ext \<in> set AUDIO_EXTENSIONS"
proof -
  have "\<forall>a \<in> set AUDIO_EXTENSIONS. toLowerCase a = a"
    unfolding AUDIO_EXTENSIONS_def by code_simp
  then show ?thesis
    by (auto simp: audio_extension_def)
qed

text \<open>
  C7: for a readable directory whose listing succeeds, discovery returns a sorted list
  holding, with multiplicity, exactly the joined paths of the entries whose extension is
  on the audio allow-list without regard to case; it asks for readability and for the
  listing once each.
\<close>

theorem discovery_filters_and_sorts:
  assumes "isDirectoryReadable C d w = (Inr True, w1)"
    and "listFiles C d w1 = (Inr entries, w2)"
  shows "\<exists>paths. discoverAudioFiles C d (tr, w) =
             (Inr paths, (tr @ [IsDirectoryReadableCalled d, ListFilesCalled d], w2))
           \<and> sorted paths
           \<and> mset paths =
               image_mset (path_join C d)
                 (filter_mset (\<lambda>f. audio_extension (path_extname C f)) (mset entries))"
  using assms
  by (simp add: discoverAudioFiles_def call_eq audio_extension_iff)


lemma listing_run:
  "discoverAudioFiles listing ''/recs'' ([], 0) =
     (Inr [''/recs/C.WAV'', ''/recs/a.mp3'', ''/recs/b.wav''],
      ([IsDirectoryReadableCalled ''/recs'', ListFilesCalled ''/recs''], 2))"
  by code_simp

theorem discovery_filters_and_sorts_witness:
  "isDirectoryReadable listing ''/recs'' 0 = (Inr True, 1)
   \<and> listFiles listing ''/recs'' 1 = (Inr [''b.wav'', ''a.mp3'', ''notes.txt'', ''C.WAV''], 2)
   \<and> (\<exists>paths. discoverAudioFiles listing ''/recs'' ([], 0) =
          (Inr paths, ([IsDirectoryReadableCalled ''/recs'', ListFilesCalled ''/recs''], 2))
        \<and> sorted paths
        \<and> mset paths =
            image_mset (path_join listing ''/recs'')
              (filter_mset (\<lambda>f. audio_extension (path_extname listing f))
                 (mset [''b.wav'', ''a.mp3'', ''notes.txt'', ''C.WAV''])))
   \<and> fst (discoverAudioFiles listing ''/recs'' ([], 0)) =
       Inr [''/recs/C.WAV'', ''/recs/a.mp3'', ''/recs/b.wav'']"
proof -
  have r: "isDirectoryReadable listing ''/recs'' 0 = (Inr True, 1)"
    by (simp add: listing_def mock_def)
  have l: "listFiles listing ''/recs'' 1 = (Inr [''b.wav'', ''a.mp3'', ''notes.txt'', ''C.WAV''], 2)"
    by (simp add: listing_def mock_def)
  from discovery_filters_and_sorts [OF r l, of "[]"] r l listing_run show ?thesis
    by simp
qed

section \<open>The single file and recording mode\<close>

text \<open>The try blocks call no downstream command.\<close>

lemma commit_try_no_delegation:
  "filter is_delegation (fst (snd (commit_try C cfg s))) = filter is_delegation (fst s)"
  by (cases s)
    (simp add: commit_try_def acquire_eq call_eq is_delegation_def Let_def
      split: sum.splits option.splits)

lemma review_try_no_delegation:
  "filter is_delegation (fst (snd (review_try C cfg s))) = filter is_delegation (fst s)"
  by (cases s)
    (simp add: review_try_def acquire_eq call_eq is_delegation_def Let_def
      split: sum.splits option.splits)

text \<open>
  Where the errors of the try blocks come from: acquisition throws, transcription
  throws, or the transcription result has the wrong shape.
\<close>

lemma commit_try_acquisition_error:
  assumes "processAudio C (audio_options_of (audioCommit cfg) cfg) w = (Inl e, w1)"
  shows "fst (commit_try C cfg (tr, w)) = Inl e"
  using assms by (simp add: commit_try_def acquire_eq)

lemma commit_try_transcription_error:
  assumes "processAudio C (audio_options_of (audioCommit cfg) cfg) w = (Inr r, w1)"
    and "cancelled r \<noteq> Some True"
    and "transcribeAudio C (resolve_audio_path C (audioCommit cfg) cfg r w1)
           (transcribe_options_of C cfg) w1 = (Inl e, w2)"
  shows "fst (commit_try C cfg (tr, w)) = Inl e"
  using assms by (simp add: commit_try_def acquire_eq call_eq)

lemma commit_try_malformed:
  assumes "processAudio C (audio_options_of (audioCommit cfg) cfg) w = (Inr r, w1)"
    and "cancelled r \<noteq> Some True"
    and "transcribeAudio C (resolve_audio_path C (audioCommit cfg) cfg r w1)
           (transcribe_options_of C cfg) w1 = (Inr t, w2)"
    and "commit_text t = Inl e"
  shows "fst (commit_try C cfg (tr, w)) = Inl e"
  using assms by (simp add: commit_try_def acquire_eq call_eq)

lemma review_try_acquisition_error:
  assumes "processAudio C (audio_options_of (audioReview cfg) cfg) w = (Inl e, w1)"
  shows "fst (review_try C cfg (tr, w)) = Inl e"
  using assms by (simp add: review_try_def acquire_eq)

lemma review_try_transcription_error:
  assumes "processAudio C (audio_options_of (audioReview cfg) cfg) w = (Inr r, w1)"
    and "cancelled r \<noteq> Some True"
    and "transcribeAudio C (resolve_audio_path C (audioReview cfg) cfg r w1)
           (transcribe_options_of C cfg) w1 = (Inl e, w2)"
  shows "fst (review_try C cfg (tr, w)) = Inl e"
  using assms by (simp add: review_try_def acquire_eq call_eq)

lemma review_try_malformed:
  assumes "processAudio C (audio_options_of (audioReview cfg) cfg) w = (Inr r, w1)"
    and "cancelled r \<noteq> Some True"
    and "transcribeAudio C (resolve_audio_path C (audioReview cfg) cfg r w1)
           (transcribe_options_of C cfg) w1 = (Inr t, w2)"
    and "review_text t = Inl e"
  shows "fst (review_try C cfg (tr, w)) = Inl e"
  using assms by (simp add: review_try_def acquire_eq call_eq)

text \<open>A result of the wrong shape is an error that is no cancellation.\<close>

lemma commit_text_not_cancellation:
  "commit_text t = Inl e \<Longrightarrow> \<not> commit_is_cancellation e"
  by (auto simp: commit_text_def commit_is_cancellation_def new_TypeError_def
      split: js_value.splits option.splits)

lemma review_text_not_cancellation:
  "review_text t = Inl e \<Longrightarrow> \<not> review_is_cancellation e"
  by (auto simp: review_text_def review_is_cancellation_def new_Error_def
      split: js_value.splits if_splits)

lemma commit_catch_recoverable:
  "\<not> commit_is_cancellation e \<Longrightarrow> commit_catch C e = Inr []"
  by (simp add: commit_catch_def commit_is_cancellation_def)

lemma review_catch_recoverable:
  "\<not> review_is_cancellation e \<Longrightarrow> review_catch e = Inr []"
  by (simp add: review_catch_def review_is_cancellation_def)

lemma trim_Nil: "trim [] = []"
  by (simp add: trim_def)

lemma commit_fallback_direction:
  "map_option direction (commit (commit_delegate_config cfg [])) =
     Some (Some (case commit cfg of
                   None \<Rightarrow> []
                 | Some c \<Rightarrow> (case direction c of None \<Rightarrow> [] | Some d \<Rightarrow> d)))"
  by (simp add: commit_delegate_config_def trim_Nil str_or_def split: option.splits)

lemma review_fallback_note:
  "map_option rv_note (review (review_delegate_config cfg [])) =
     Some (Some (case review cfg of
                   None \<Rightarrow> []
                 | Some r \<Rightarrow> (case rv_note r of None \<Rightarrow> [] | Some n \<Rightarrow> n)))"
  by (simp add: review_delegate_config_def mapped_review_def trim_Nil str_or_def
      split: option.splits)

lemma commit_recoverable_run:
  assumes "\<not> isDryRun cfg" "commit_try C cfg s = (Inl e, s1)" "\<not> commit_is_cancellation e"
  shows "audio_commit_execute C cfg s =
           call (CommitCalled (commit_delegate_config cfg []))
             (executeCommit C (commit_delegate_config cfg [])) s1"
  using assms
  by (simp add: audio_commit_execute_def executeInternal_def commit_catch_recoverable
      split: prod.splits sum.splits)

lemma review_recoverable_run:
  assumes "\<not> isDryRun cfg" "\<not> truthy_str (opt_directory cfg)"
    "review_try C cfg s = (Inl e, s1)" "\<not> review_is_cancellation e"
  shows "audio_review_execute C cfg s =
           call (ReviewCalled (review_delegate_config cfg []))
             (executeReview C (review_delegate_config cfg [])) s1"
  using assms
  by (simp add: audio_review_execute_def review_single_def review_catch_recoverable
      split: prod.splits sum.splits)

lemma call_parts:
  "fst (call ev f s) = fst (f (snd s))"
  "fst (snd (call ev f s)) = fst s @ [ev]"
  "snd (snd (call ev f s)) = snd (f (snd s))"
  by (simp_all add: call_def split: prod.splits)

text \<open>
  C1: in a live run without a directory, when the try block (acquisition and
  transcription) throws an error that the catch clause does not treat as a
  cancellation, the command swallows it and calls the downstream command once, right
  after the try block, with the config built from the empty transcript: its free-text
  field (\<^verbatim>\<open>direction\<close> for commit, \<^verbatim>\<open>note\<close> for review) is the value already in the
  config when there is one and the empty string otherwise. The outcome of the call is
  the outcome of the downstream command. A transcription result of the wrong shape
  throws such an error in both flows.
\<close>

theorem recoverable_failure_delegates_empty:
  assumes "\<not> isDryRun cfg"
  shows
    "(commit_try C cfg s = (Inl e, s1) \<and> \<not> commit_is_cancellation e \<longrightarrow>
        fst (audio_commit_execute C cfg s) =
          fst (executeCommit C (commit_delegate_config cfg []) (snd s1))
        \<and> fst (snd (audio_commit_execute C cfg s)) =
            fst s1 @ [CommitCalled (commit_delegate_config cfg [])]
        \<and> length (filter is_delegation (fst (snd (audio_commit_execute C cfg s)))) =
            length (filter is_delegation (fst s)) + 1)
     \<and> map_option direction (commit (commit_delegate_config cfg [])) =
         Some (Some (case commit cfg of
                       None \<Rightarrow> []
                     | Some c \<Rightarrow> (case direction c of None \<Rightarrow> [] | Some d \<Rightarrow> d)))
     \<and> (\<not> truthy_str (opt_directory cfg) \<and> review_try C cfg s = (Inl e, s1)
          \<and> \<not> review_is_cancellation e \<longrightarrow>
        fst (audio_review_execute C cfg s) =
          fst (executeReview C (review_delegate_config cfg []) (snd s1))
        \<and> fst (snd (audio_review_execute C cfg s)) =
            fst s1 @ [ReviewCalled (review_delegate_config cfg [])]
        \<and> length (filter is_delegation (fst (snd (audio_review_execute C cfg s)))) =
            length (filter is_delegation (fst s)) + 1)
     \<and> map_option rv_note (review (review_delegate_config cfg [])) =
         Some (Some (case review cfg of
                       None \<Rightarrow> []
                     | Some r \<Rightarrow> (case rv_note r of None \<Rightarrow> [] | Some n \<Rightarrow> n)))
     \<and> (\<forall>t x. commit_text t = Inl x \<longrightarrow> \<not> commit_is_cancellation x)
     \<and> (\<forall>t x. review_text t = Inl x \<longrightarrow> \<not> review_is_cancellation x)"
proof (intro conjI impI allI)
  assume h: "commit_try C cfg s = (Inl e, s1) \<and> \<not> commit_is_cancellation e"
  then have run: "audio_commit_execute C cfg s =
      call (CommitCalled (commit_delegate_config cfg []))
        (executeCommit C (commit_delegate_config cfg [])) s1"
    using assms by (simp add: commit_recoverable_run)
  from h have quiet: "filter is_delegation (fst s1) = filter is_delegation (fst s)"
    using commit_try_no_delegation [of C cfg s] by simp
  show "fst (audio_commit_execute C cfg s) =
      fst (executeCommit C (commit_delegate_config cfg []) (snd s1))"
    by (simp add: run call_parts)
  show "fst (snd (audio_commit_execute C cfg s)) =
      fst s1 @ [CommitCalled (commit_delegate_config cfg [])]"
    by (simp add: run call_parts)
  show "length (filter is_delegation (fst (snd (audio_commit_execute C cfg s)))) =
      length (filter is_delegation (fst s)) + 1"
    by (simp add: run call_parts quiet is_delegation_def)
next
  assume h: "\<not> truthy_str (opt_directory cfg) \<and> review_try C cfg s = (Inl e, s1)
      \<and> \<not> review_is_cancellation e"
  then have run: "audio_review_execute C cfg s =
      call (ReviewCalled (review_delegate_config cfg []))
        (executeReview C (review_delegate_config cfg [])) s1"
    using assms by (simp add: review_recoverable_run)
  from h have quiet: "filter is_delegation (fst s1) = filter is_delegation (fst s)"
    using review_try_no_delegation [of C cfg s] by simp
  show "fst (audio_review_execute C cfg s) =
      fst (executeReview C (review_delegate_config cfg []) (snd s1))"
    by (simp add: run call_parts)
  show "fst (snd (audio_review_execute C cfg s)) =
      fst s1 @ [ReviewCalled (review_delegate_config cfg [])]"
    by (simp add: run call_parts)
  show "length (filter is_delegation (fst (snd (audio_review_execute C cfg s)))) =
      length (filter is_delegation (fst s)) + 1"
    by (simp add: run call_parts quiet is_delegation_def)
next
  show "map_option direction (commit (commit_delegate_config cfg [])) =
      Some (Some (case commit cfg of
                    None \<Rightarrow> []
                  | Some c \<Rightarrow> (case direction c of None \<Rightarrow> [] | Some d \<Rightarrow> d)))"
    by (rule commit_fallback_direction)
  show "map_option rv_note (review (review_delegate_config cfg [])) =
      Some (Some (case review cfg of
                    None \<Rightarrow> []
                  | Some r \<Rightarrow> (case rv_note r of None \<Rightarrow> [] | Some n \<Rightarrow> n)))"
    by (rule review_fallback_note)
next
  fix t x assume "commit_text t = Inl x"
  then show "\<not> commit_is_cancellation x" by (rule commit_text_not_cancellation)
next
  fix t x assume "review_text t = Inl x"
  then show "\<not> review_is_cancellation x" by (rule review_text_not_cancellation)
qed


theorem recoverable_failure_delegates_empty_witness:
  "\<not> isDryRun directed_config \<and> \<not> truthy_str (opt_directory directed_config)
   \<and> (\<exists>e s1. commit_try mock directed_config ([], 0) = (Inl e, s1) \<and> \<not> commit_is_cancellation e)
   \<and> fst (audio_commit_execute mock directed_config ([], 0)) = Inr ''Mock commit message generated''
   \<and> length (filter is_delegation (fst (snd (audio_commit_execute mock directed_config ([], 0))))) = 1
   \<and> map_option direction (commit (commit_delegate_config directed_config [])) = Some (Some ''fix typo'')
   \<and> (\<exists>e s1. review_try mock directed_config ([], 0) = (Inl e, s1) \<and> \<not> review_is_cancellation e)
   \<and> fst (audio_review_execute mock directed_config ([], 0)) = Inr ''Mock review generated''
   \<and> length (filter is_delegation (fst (snd (audio_review_execute mock directed_config ([], 0))))) = 1
   \<and> map_option rv_note (review (review_delegate_config directed_config [])) = Some (Some ''check naming'')"
proof -
  have live: "\<not> isDryRun directed_config"
    by (simp add: isDryRun_def directed_config_def base_config_def)
  have nodir: "\<not> truthy_str (opt_directory directed_config)"
    by (simp add: opt_directory_def truthy_str_def directed_config_def base_config_def)
  have "fst (commit_try mock directed_config ([], 0)) =
      Inl (new_TypeError ''Cannot read properties of undefined (reading trim)'')"
    by (simp add: commit_try_def acquire_eq call_eq mock_def commit_text_def Let_def)
  then obtain s1 where ct: "commit_try mock directed_config ([], 0) =
      (Inl (new_TypeError ''Cannot read properties of undefined (reading trim)''), s1)"
    by (cases "commit_try mock directed_config ([], 0)") auto
  have cn: "\<not> commit_is_cancellation (new_TypeError ''Cannot read properties of undefined (reading trim)'')"
    by (simp add: commit_is_cancellation_def new_TypeError_def)
  have "fst (review_try mock directed_config ([], 0)) =
      Inl (new_Error ''Invalid transcription result: missing or invalid text property'')"
    by (simp add: review_try_def acquire_eq call_eq mock_def review_text_def js_falsy_def
        js_typeof_def Let_def)
  then obtain s2 where rt: "review_try mock directed_config ([], 0) =
      (Inl (new_Error ''Invalid transcription result: missing or invalid text property''), s2)"
    by (cases "review_try mock directed_config ([], 0)") auto
  have rn: "\<not> review_is_cancellation (new_Error ''Invalid transcription result: missing or invalid text property'')"
    by (simp add: review_is_cancellation_def new_Error_def)
  have dn: "commit directed_config = Some \<lparr>direction = Some ''fix typo'', commit_rest = [(''sendit'', JBool True)]\<rparr>"
    "review directed_config = Some (base_review\<lparr>rv_note := Some ''check naming''\<rparr>)"
    by (simp_all add: directed_config_def)
  have m: "\<And>c w. fst (executeCommit mock c w) = Inr ''Mock commit message generated''"
    "\<And>c w. fst (executeReview mock c w) = Inr ''Mock review generated''"
    by (simp_all add: mock_def)
  from recoverable_failure_delegates_empty [OF live, of mock "([], 0)" _ s1] ct cn
  have c: "fst (audio_commit_execute mock directed_config ([], 0)) =
        fst (executeCommit mock (commit_delegate_config directed_config []) (snd s1))
      \<and> length (filter is_delegation (fst (snd (audio_commit_execute mock directed_config ([], 0))))) =
          length (filter is_delegation (fst ([], 0::nat))) + 1
      \<and> map_option direction (commit (commit_delegate_config directed_config [])) =
          Some (Some (case commit directed_config of
                        None \<Rightarrow> []
                      | Some c \<Rightarrow> (case direction c of None \<Rightarrow> [] | Some d \<Rightarrow> d)))"
    by blast
  from recoverable_failure_delegates_empty [OF live, of mock "([], 0)" _ s2] nodir rt rn
  have r: "fst (audio_review_execute mock directed_config ([], 0)) =
        fst (executeReview mock (review_delegate_config directed_config []) (snd s2))
      \<and> length (filter is_delegation (fst (snd (audio_review_execute mock directed_config ([], 0))))) =
          length (filter is_delegation (fst ([], 0::nat))) + 1
      \<and> map_option rv_note (review (review_delegate_config directed_config [])) =
          Some (Some (case review directed_config of
                        None \<Rightarrow> []
                      | Some r \<Rightarrow> (case rv_note r of None \<Rightarrow> [] | Some n \<Rightarrow> n)))"
    by blast
  have e1: "\<exists>e s1. commit_try mock directed_config ([], 0) = (Inl e, s1) \<and> \<not> commit_is_cancellation e"
    using ct cn by blast
  have e2: "\<exists>e s1. review_try mock directed_config ([], 0) = (Inl e, s1) \<and> \<not> review_is_cancellation e"
    using rt rn by blast
  show ?thesis
    using live nodir e1 e2 c r by (simp add: dn m)
qed

lemma commit_cancellation_run:
  assumes "\<not> isDryRun cfg" "commit_try C cfg s = (Inl e, s1)" "commit_is_cancellation e"
  shows "audio_commit_execute C cfg s =
           (Inl (if err_class e = UserCancellationError then e
                 else new_UserCancellationError C (err_message e)), s1)"
  using assms
  by (auto simp: audio_commit_execute_def executeInternal_def commit_catch_def
      commit_is_cancellation_def new_UserCancellationError_def)

lemma review_cancellation_run:
  assumes "\<not> isDryRun cfg" "\<not> truthy_str (opt_directory cfg)"
    "review_try C cfg s = (Inl e, s1)" "review_is_cancellation e"
  shows "audio_review_execute C cfg s = (Inl e, s1)"
  using assms
  by (simp add: audio_review_execute_def review_single_def review_catch_def
      review_is_cancellation_def)

lemma commit_try_cancelled_result:
  assumes "processAudio C (audio_options_of (audioCommit cfg) cfg) w = (Inr r, w1)"
    "cancelled r = Some True"
  shows "commit_try C cfg (tr, w) =
           (Inl (new_UserCancellationError C ''Audio commit cancelled by user''),
            (tr @ (case countdown_for (audioCommit cfg) of
                     None \<Rightarrow> [] | Some n \<Rightarrow> [CountdownCreated n, CountdownStarted])
                @ [ProcessAudioCalled (audio_options_of (audioCommit cfg) cfg)]
                @ (case countdown_for (audioCommit cfg) of
                     None \<Rightarrow> [] | Some n \<Rightarrow> [CountdownStopped]), w1))"
  using assms by (simp add: commit_try_def acquire_eq)

lemma review_try_cancelled_result:
  assumes "processAudio C (audio_options_of (audioReview cfg) cfg) w = (Inr r, w1)"
    "cancelled r = Some True"
  shows "review_try C cfg (tr, w) =
           (Inl (new_CancellationError C ''Audio review cancelled by user''),
            (tr @ (case countdown_for (audioReview cfg) of
                     None \<Rightarrow> [] | Some n \<Rightarrow> [CountdownCreated n, CountdownStarted])
                @ [ProcessAudioCalled (audio_options_of (audioReview cfg) cfg)]
                @ (case countdown_for (audioReview cfg) of
                     None \<Rightarrow> [] | Some n \<Rightarrow> [CountdownStopped]), w1))"
  using assms by (simp add: review_try_def acquire_eq)

text \<open>
  C2 as stated fails in the commit flow: acquisition throws a legacy CancellationError,
  and what reaches the caller is another error, of another class.
\<close>

theorem cancellation_unchanged_counterexample:
  "commit_is_cancellation legacy_cancel
   \<and> fst (processAudio legacy_cancelling (audio_options_of (audioCommit base_config) base_config) 0)
       = Inl legacy_cancel
   \<and> fst (audio_commit_execute legacy_cancelling base_config ([], 0)) \<noteq> Inl legacy_cancel"
  by (simp add: commit_is_cancellation_def legacy_cancel_def legacy_cancelling_def mock_def
      audio_commit_execute_def executeInternal_def commit_try_def acquire_eq commit_catch_def
      new_UserCancellationError_def isDryRun_def base_config_def)

text \<open>
  C2, as amended, for a live run without a directory. Commit flow: when the try block
  throws a UserCancellationError, a CancellationError or an error named
  CancellationError, the downstream command is not called and the command throws a
  cancellation error: a UserCancellationError as it is, and in place of a legacy
  CancellationError (by class or by name) a new UserCancellationError with the same
  message; a cancelled acquisition result throws a new UserCancellationError. Review
  flow: when the try block throws an error named CancellationError, the downstream
  command is not called and the command throws that error as it is; a cancelled
  acquisition result throws a new CancellationError without delegating, provided the
  class names its instances CancellationError. The statement says nothing of an error
  of a cancellation class under another name in the review flow.
\<close>

theorem cancellation_aborts_without_delegation:
  assumes "\<not> isDryRun cfg"
  shows
    "(commit_try C cfg s = (Inl e, s1)
        \<and> (err_class e = UserCancellationError \<or> err_name e = ''CancellationError''
             \<or> err_class e = CancellationError) \<longrightarrow>
        audio_commit_execute C cfg s =
          (Inl (if err_class e = UserCancellationError then e
                else new_UserCancellationError C (err_message e)), s1)
        \<and> filter is_delegation (fst s1) = filter is_delegation (fst s))
     \<and> (processAudio C (audio_options_of (audioCommit cfg) cfg) w = (Inr r, w1)
          \<and> cancelled r = Some True \<longrightarrow>
        audio_commit_execute C cfg (tr, w) =
          (Inl (new_UserCancellationError C ''Audio commit cancelled by user''),
           (tr @ (case countdown_for (audioCommit cfg) of
                    None \<Rightarrow> [] | Some n \<Rightarrow> [CountdownCreated n, CountdownStarted])
               @ [ProcessAudioCalled (audio_options_of (audioCommit cfg) cfg)]
               @ (case countdown_for (audioCommit cfg) of
                    None \<Rightarrow> [] | Some n \<Rightarrow> [CountdownStopped]), w1)))
     \<and> (\<not> truthy_str (opt_directory cfg) \<and> review_try C cfg s = (Inl e, s1)
          \<and> err_name e = ''CancellationError'' \<longrightarrow>
        audio_review_execute C cfg s = (Inl e, s1)
        \<and> filter is_delegation (fst s1) = filter is_delegation (fst s))
     \<and> (\<not> truthy_str (opt_directory cfg) \<and> cancellationName C = ''CancellationError''
          \<and> processAudio C (audio_options_of (audioReview cfg) cfg) w = (Inr r, w1)
          \<and> cancelled r = Some True \<longrightarrow>
        audio_review_execute C cfg (tr, w) =
          (Inl (new_CancellationError C ''Audio review cancelled by user''),
           (tr @ (case countdown_for (audioReview cfg) of
                    None \<Rightarrow> [] | Some n \<Rightarrow> [CountdownCreated n, CountdownStarted])
               @ [ProcessAudioCalled (audio_options_of (audioReview cfg) cfg)]
               @ (case countdown_for (audioReview cfg) of
                    None \<Rightarrow> [] | Some n \<Rightarrow> [CountdownStopped]), w1)))"
proof (intro conjI impI)
  assume h: "commit_try C cfg s = (Inl e, s1)
      \<and> (err_class e = UserCancellationError \<or> err_name e = ''CancellationError''
           \<or> err_class e = CancellationError)"
  then show "audio_commit_execute C cfg s =
      (Inl (if err_class e = UserCancellationError then e
            else new_UserCancellationError C (err_message e)), s1)"
    using assms by (simp add: commit_cancellation_run commit_is_cancellation_def)
  from h show "filter is_delegation (fst s1) = filter is_delegation (fst s)"
    using commit_try_no_delegation [of C cfg s] by simp
next
  assume h: "processAudio C (audio_options_of (audioCommit cfg) cfg) w = (Inr r, w1)
      \<and> cancelled r = Some True"
  then have t: "commit_try C cfg (tr, w) =
      (Inl (new_UserCancellationError C ''Audio commit cancelled by user''),
       (tr @ (case countdown_for (audioCommit cfg) of
                None \<Rightarrow> [] | Some n \<Rightarrow> [CountdownCreated n, CountdownStarted])
           @ [ProcessAudioCalled (audio_options_of (audioCommit cfg) cfg)]
           @ (case countdown_for (audioCommit cfg) of
                None \<Rightarrow> [] | Some n \<Rightarrow> [CountdownStopped]), w1))"
    by (simp add: commit_try_cancelled_result)
  have c: "commit_is_cancellation (new_UserCancellationError C ''Audio commit cancelled by user'')"
    by (simp add: commit_is_cancellation_def new_UserCancellationError_def)
  from commit_cancellation_run [OF assms t c]
  show "audio_commit_execute C cfg (tr, w) =
      (Inl (new_UserCancellationError C ''Audio commit cancelled by user''),
       (tr @ (case countdown_for (audioCommit cfg) of
                None \<Rightarrow> [] | Some n \<Rightarrow> [CountdownCreated n, CountdownStarted])
           @ [ProcessAudioCalled (audio_options_of (audioCommit cfg) cfg)]
           @ (case countdown_for (audioCommit cfg) of
                None \<Rightarrow> [] | Some n \<Rightarrow> [CountdownStopped]), w1))"
    by (simp add: new_UserCancellationError_def)
next
  assume h: "\<not> truthy_str (opt_directory cfg) \<and> review_try C cfg s = (Inl e, s1)
      \<and> err_name e = ''CancellationError''"
  then show "audio_review_execute C cfg s = (Inl e, s1)"
    using assms by (simp add: review_cancellation_run review_is_cancellation_def)
  from h show "filter is_delegation (fst s1) = filter is_delegation (fst s)"
    using review_try_no_delegation [of C cfg s] by simp
next
  assume h: "\<not> truthy_str (opt_directory cfg) \<and> cancellationName C = ''CancellationError''
      \<and> processAudio C (audio_options_of (audioReview cfg) cfg) w = (Inr r, w1)
      \<and> cancelled r = Some True"
  then have t: "review_try C cfg (tr, w) =
      (Inl (new_CancellationError C ''Audio review cancelled by user''),
       (tr @ (case countdown_for (audioReview cfg) of
                None \<Rightarrow> [] | Some n \<Rightarrow> [CountdownCreated n, CountdownStarted])
           @ [ProcessAudioCalled (audio_options_of (audioReview cfg) cfg)]
           @ (case countdown_for (audioReview cfg) of
                None \<Rightarrow> [] | Some n \<Rightarrow> [CountdownStopped]), w1))"
    by (simp add: review_try_cancelled_result)
  from h have c: "review_is_cancellation (new_CancellationError C ''Audio review cancelled by user'')"
    by (simp add: review_is_cancellation_def new_CancellationError_def)
  from h have d: "\<not> truthy_str (opt_directory cfg)" by simp
  from review_cancellation_run [OF assms d t c]
  show "audio_review_execute C cfg (tr, w) =
      (Inl (new_CancellationError C ''Audio review cancelled by user''),
       (tr @ (case countdown_for (audioReview cfg) of
                None \<Rightarrow> [] | Some n \<Rightarrow> [CountdownCreated n, CountdownStarted])
           @ [ProcessAudioCalled (audio_options_of (audioReview cfg) cfg)]
           @ (case countdown_for (audioReview cfg) of
                None \<Rightarrow> [] | Some n \<Rightarrow> [CountdownStopped]), w1))" .
qed


theorem cancellation_aborts_without_delegation_witness:
  "\<not> isDryRun base_config \<and> \<not> truthy_str (opt_directory base_config)
   \<and> cancellationName cancelling = ''CancellationError''
   \<and> audio_commit_execute cancelling base_config ([], 0) =
       (Inl (new_UserCancellationError cancelling ''Audio commit cancelled by user''),
        ([ProcessAudioCalled (audio_options_of (audioCommit base_config) base_config)], 1))
   \<and> audio_review_execute cancelling base_config ([], 0) =
       (Inl (new_CancellationError cancelling ''Audio review cancelled by user''),
        ([ProcessAudioCalled (audio_options_of (audioReview base_config) base_config)], 1))
   \<and> err_class legacy_cancel = CancellationError
   \<and> err_name legacy_cancel = ''CancellationError''
   \<and> commit_try legacy_cancelling base_config ([], 0) =
       (Inl legacy_cancel,
        ([ProcessAudioCalled (audio_options_of (audioCommit base_config) base_config)], 1))
   \<and> review_try legacy_cancelling base_config ([], 0) =
       (Inl legacy_cancel,
        ([ProcessAudioCalled (audio_options_of (audioReview base_config) base_config)], 1))
   \<and> audio_commit_execute legacy_cancelling base_config ([], 0) =
       (Inl (new_UserCancellationError legacy_cancelling ''stop''),
        ([ProcessAudioCalled (audio_options_of (audioCommit base_config) base_config)], 1))
   \<and> audio_review_execute legacy_cancelling base_config ([], 0) =
       (Inl legacy_cancel,
        ([ProcessAudioCalled (audio_options_of (audioReview base_config) base_config)], 1))"
proof -
  have live: "\<not> isDryRun base_config"
    by (simp add: isDryRun_def base_config_def)
  have nodir: "\<not> truthy_str (opt_directory base_config)"
    by (simp add: opt_directory_def truthy_str_def base_config_def)
  have nm: "cancellationName cancelling = ''CancellationError''"
    by (simp add: cancelling_def mock_def)
  have nc: "countdown_for (audioCommit base_config) = None" "countdown_for (audioReview base_config) = None"
    by (simp_all add: countdown_for_def opt_file_def opt_maxRecordingTime_def base_config_def)
  have pc: "processAudio cancelling (audio_options_of (audioCommit base_config) base_config) 0 =
      (Inr \<lparr>cancelled = Some True, result_audioFilePath = None\<rparr>, 1)"
    "processAudio cancelling (audio_options_of (audioReview base_config) base_config) 0 =
      (Inr \<lparr>cancelled = Some True, result_audioFilePath = None\<rparr>, 1)"
    by (simp_all add: cancelling_def mock_def)
  have lc: "err_class legacy_cancel = CancellationError"
    "err_name legacy_cancel = ''CancellationError''"
    "err_class legacy_cancel \<noteq> UserCancellationError" "err_message legacy_cancel = ''stop''"
    by (simp_all add: legacy_cancel_def)
  have tc: "commit_try legacy_cancelling base_config ([], 0) =
      (Inl legacy_cancel, ([ProcessAudioCalled (audio_options_of (audioCommit base_config) base_config)], 1))"
    by (simp add: commit_try_def acquire_eq nc legacy_cancelling_def mock_def)
  have tr: "review_try legacy_cancelling base_config ([], 0) =
      (Inl legacy_cancel, ([ProcessAudioCalled (audio_options_of (audioReview base_config) base_config)], 1))"
    by (simp add: review_try_def acquire_eq nc legacy_cancelling_def mock_def)
  from cancellation_aborts_without_delegation
    [OF live, where C = cancelling and w = 0 and ?w1.0 = 1 and tr = "[]"
      and r = "\<lparr>cancelled = Some True, result_audioFilePath = None\<rparr>"] pc nodir nm
  have a: "audio_commit_execute cancelling base_config ([], 0) =
       (Inl (new_UserCancellationError cancelling ''Audio commit cancelled by user''),
        ([ProcessAudioCalled (audio_options_of (audioCommit base_config) base_config)], 1))"
    and b: "audio_review_execute cancelling base_config ([], 0) =
       (Inl (new_CancellationError cancelling ''Audio review cancelled by user''),
        ([ProcessAudioCalled (audio_options_of (audioReview base_config) base_config)], 1))"
    by (simp_all add: nc)
  from cancellation_aborts_without_delegation
    [OF live, where C = legacy_cancelling and s = "([], 0)" and e = legacy_cancel
      and ?s1.0 = "([ProcessAudioCalled (audio_options_of (audioCommit base_config) base_config)], 1)"]
    tc lc
  have c: "audio_commit_execute legacy_cancelling base_config ([], 0) =
       (Inl (new_UserCancellationError legacy_cancelling ''stop''),
        ([ProcessAudioCalled (audio_options_of (audioCommit base_config) base_config)], 1))"
    by simp
  from cancellation_aborts_without_delegation
    [OF live, where C = legacy_cancelling and s = "([], 0)" and e = legacy_cancel
      and ?s1.0 = "([ProcessAudioCalled (audio_options_of (audioReview base_config) base_config)], 1)"]
    tr lc nodir
  have d: "audio_review_execute legacy_cancelling base_config ([], 0) =
       (Inl legacy_cancel,
        ([ProcessAudioCalled (audio_options_of (audioReview base_config) base_config)], 1))"
    by simp
  show ?thesis
    using live nodir nm a b c d lc(1,2) tc tr by simp
qed

lemma transcribed_paths_append:
  "transcribed_paths (xs @ ys) = transcribed_paths xs @ transcribed_paths ys"
  by (induction xs rule: transcribed_paths.induct) simp_all

lemma commit_try_transcribed:
  assumes "processAudio C (audio_options_of (audioCommit cfg) cfg) w = (Inr r, w1)"
    "cancelled r \<noteq> Some True"
  shows "transcribed_paths (fst (snd (commit_try C cfg (tr, w)))) =
           transcribed_paths tr @ [resolve_audio_path C (audioCommit cfg) cfg r w1]"
  using assms
  by (simp add: commit_try_def acquire_eq call_eq Let_def transcribed_paths_append
      split: sum.splits option.splits)

lemma review_try_transcribed:
  assumes "processAudio C (audio_options_of (audioReview cfg) cfg) w = (Inr r, w1)"
    "cancelled r \<noteq> Some True"
  shows "transcribed_paths (fst (snd (review_try C cfg (tr, w)))) =
           transcribed_paths tr @ [resolve_audio_path C (audioReview cfg) cfg r w1]"
  using assms
  by (simp add: review_try_def acquire_eq call_eq Let_def transcribed_paths_append
      split: sum.splits option.splits)

lemma audio_commit_execute_transcribed:
  assumes "\<not> isDryRun cfg"
  shows "transcribed_paths (fst (snd (audio_commit_execute C cfg s))) =
           transcribed_paths (fst (snd (commit_try C cfg s)))"
  using audio_commit_execute_trace [OF assms, of C s]
  by (auto simp: transcribed_paths_append)

lemma audio_review_execute_transcribed:
  assumes "\<not> isDryRun cfg" "\<not> truthy_str (opt_directory cfg)"
  shows "transcribed_paths (fst (snd (audio_review_execute C cfg s))) =
           transcribed_paths (fst (snd (review_try C cfg s)))"
  using review_single_trace [of C cfg s] assms
  by (auto simp: transcribed_paths_append audio_review_execute_single)

lemma resolve_audio_path_cases:
  "opt_file blk = Some f \<Longrightarrow> f \<noteq> [] \<Longrightarrow> resolve_audio_path C blk cfg r w = f"
  "\<not> truthy_str (opt_file blk) \<Longrightarrow> result_audioFilePath r = Some p \<Longrightarrow> p \<noteq> [] \<Longrightarrow>
     resolve_audio_path C blk cfg r w = p"
  "\<not> truthy_str (opt_file blk) \<Longrightarrow> \<not> truthy_str (result_audioFilePath r) \<Longrightarrow>
     resolve_audio_path C blk cfg r w =
       path_join C (case outputDirectory cfg of
                      None \<Rightarrow> ''output''
                    | Some d \<Rightarrow> if d = [] then ''output'' else d)
         (getTimestampedAudioFilename C w)"
  by (simp_all add: resolve_audio_path_def truthy_str_def str_or_def outputDir_def)

text \<open>
  C8: in a live run without a directory, once acquisition has returned a result that is
  not cancelled, transcription is called exactly once, on the \<^verbatim>\<open>file\<close> option when it is
  set (a non-empty string); otherwise on the path the acquisition collaborator reported
  when there is one; otherwise on the timestamped file name joined under the output
  directory, which defaults to \<^verbatim>\<open>output\<close>.
\<close>

theorem transcription_path_priority:
  assumes "\<not> isDryRun cfg"
  shows
    "(processAudio C (audio_options_of (audioCommit cfg) cfg) w = (Inr r, w1)
        \<and> cancelled r \<noteq> Some True \<longrightarrow>
       (\<forall>f. opt_file (audioCommit cfg) = Some f \<and> f \<noteq> [] \<longrightarrow>
          transcribed_paths (fst (snd (audio_commit_execute C cfg (tr, w)))) =
            transcribed_paths tr @ [f])
       \<and> (\<forall>p. \<not> truthy_str (opt_file (audioCommit cfg))
              \<and> result_audioFilePath r = Some p \<and> p \<noteq> [] \<longrightarrow>
          transcribed_paths (fst (snd (audio_commit_execute C cfg (tr, w)))) =
            transcribed_paths tr @ [p])
       \<and> (\<not> truthy_str (opt_file (audioCommit cfg))
              \<and> \<not> truthy_str (result_audioFilePath r) \<longrightarrow>
          transcribed_paths (fst (snd (audio_commit_execute C cfg (tr, w)))) =
            transcribed_paths tr
              @ [path_join C (case outputDirectory cfg of
                               None \<Rightarrow> ''output''
                             | Some d \<Rightarrow> if d = [] then ''output'' else d)
                   (getTimestampedAudioFilename C w1)]))
     \<and> (\<not> truthy_str (opt_directory cfg)
        \<and> processAudio C (audio_options_of (audioReview cfg) cfg) w = (Inr r, w1)
        \<and> cancelled r \<noteq> Some True \<longrightarrow>
       (\<forall>f. opt_file (audioReview cfg) = Some f \<and> f \<noteq> [] \<longrightarrow>
          transcribed_paths (fst (snd (audio_review_execute C cfg (tr, w)))) =
            transcribed_paths tr @ [f])
       \<and> (\<forall>p. \<not> truthy_str (opt_file (audioReview cfg))
              \<and> result_audioFilePath r = Some p \<and> p \<noteq> [] \<longrightarrow>
          transcribed_paths (fst (snd (audio_review_execute C cfg (tr, w)))) =
            transcribed_paths tr @ [p])
       \<and> (\<not> truthy_str (opt_file (audioReview cfg))
              \<and> \<not> truthy_str (result_audioFilePath r) \<longrightarrow>
          transcribed_paths (fst (snd (audio_review_execute C cfg (tr, w)))) =
            transcribed_paths tr
              @ [path_join C (case outputDirectory cfg of
                               None \<Rightarrow> ''output''
                             | Some d \<Rightarrow> if d = [] then ''output'' else d)
                   (getTimestampedAudioFilename C w1)]))"
proof (intro conjI impI allI)
  assume h: "processAudio C (audio_options_of (audioCommit cfg) cfg) w = (Inr r, w1)
      \<and> cancelled r \<noteq> Some True"
  then have paths: "transcribed_paths (fst (snd (audio_commit_execute C cfg (tr, w)))) =
      transcribed_paths tr @ [resolve_audio_path C (audioCommit cfg) cfg r w1]"
    using assms by (simp add: audio_commit_execute_transcribed commit_try_transcribed)
  {
    fix f assume "opt_file (audioCommit cfg) = Some f \<and> f \<noteq> []"
    then show "transcribed_paths (fst (snd (audio_commit_execute C cfg (tr, w)))) =
        transcribed_paths tr @ [f]"
      by (simp add: paths resolve_audio_path_cases)
  next
    fix p assume "\<not> truthy_str (opt_file (audioCommit cfg))
        \<and> result_audioFilePath r = Some p \<and> p \<noteq> []"
    then show "transcribed_paths (fst (snd (audio_commit_execute C cfg (tr, w)))) =
        transcribed_paths tr @ [p]"
      by (simp add: paths resolve_audio_path_cases)
  next
    assume "\<not> truthy_str (opt_file (audioCommit cfg)) \<and> \<not> truthy_str (result_audioFilePath r)"
    then show "transcribed_paths (fst (snd (audio_commit_execute C cfg (tr, w)))) =
        transcribed_paths tr
          @ [path_join C (case outputDirectory cfg of
                           None \<Rightarrow> ''output''
                         | Some d \<Rightarrow> if d = [] then ''output'' else d)
               (getTimestampedAudioFilename C w1)]"
      by (simp add: paths resolve_audio_path_cases)
  }
next
  assume h: "\<not> truthy_str (opt_directory cfg)
      \<and> processAudio C (audio_options_of (audioReview cfg) cfg) w = (Inr r, w1)
      \<and> cancelled r \<noteq> Some True"
  then have paths: "transcribed_paths (fst (snd (audio_review_execute C cfg (tr, w)))) =
      transcribed_paths tr @ [resolve_audio_path C (audioReview cfg) cfg r w1]"
    using assms by (simp add: audio_review_execute_transcribed review_try_transcribed)
  {
    fix f assume "opt_file (audioReview cfg) = Some f \<and> f \<noteq> []"
    then show "transcribed_paths (fst (snd (audio_review_execute C cfg (tr, w)))) =
        transcribed_paths tr @ [f]"
      by (simp add: paths resolve_audio_path_cases)
  next
    fix p assume "\<not> truthy_str (opt_file (audioReview cfg))
        \<and> result_audioFilePath r = Some p \<and> p \<noteq> []"
    then show "transcribed_paths (fst (snd (audio_review_execute C cfg (tr, w)))) =
        transcribed_paths tr @ [p]"
      by (simp add: paths resolve_audio_path_cases)
  next
    assume "\<not> truthy_str (opt_file (audioReview cfg)) \<and> \<not> truthy_str (result_audioFilePath r)"
    then show "transcribed_paths (fst (snd (audio_review_execute C cfg (tr, w)))) =
        transcribed_paths tr
          @ [path_join C (case outputDirectory cfg of
                           None \<Rightarrow> ''output''
                         | Some d \<Rightarrow> if d = [] then ''output'' else d)
               (getTimestampedAudioFilename C w1)]"
      by (simp add: paths resolve_audio_path_cases)
  }
qed


theorem transcription_path_priority_witness:
  "\<not> isDryRun file_config \<and> \<not> isDryRun base_config
   \<and> \<not> truthy_str (opt_directory file_config)
   \<and> transcribed_paths (fst (snd (audio_commit_execute mock file_config ([], 0)))) = [''/a.wav'']
   \<and> transcribed_paths (fst (snd (audio_review_execute mock file_config ([], 0)))) = [''/a.wav'']
   \<and> transcribed_paths (fst (snd (audio_commit_execute reporting base_config ([], 0)))) = [''/tmp/rec.wav'']
   \<and> transcribed_paths (fst (snd (audio_commit_execute mock base_config ([], 0)))) =
       [''output/audio-20260110-120000.wav'']"
proof -
  have live: "\<not> isDryRun file_config" "\<not> isDryRun base_config"
    by (simp_all add: isDryRun_def file_config_def base_config_def)
  have nodir: "\<not> truthy_str (opt_directory file_config)"
    by (simp add: opt_directory_def truthy_str_def file_config_def base_config_def
        base_audio_review_def)
  have f: "opt_file (audioCommit file_config) = Some ''/a.wav''"
    "opt_file (audioReview file_config) = Some ''/a.wav''"
    "\<not> truthy_str (opt_file (audioCommit base_config))"
    "outputDirectory base_config = None"
    by (simp_all add: opt_file_def file_config_def base_config_def base_audio_review_def
        truthy_str_def)
  have pm: "\<And>opts. processAudio mock opts 0 = (Inr \<lparr>cancelled = None, result_audioFilePath = None\<rparr>, 1)"
    "\<And>opts. processAudio reporting opts 0 =
       (Inr \<lparr>cancelled = Some False, result_audioFilePath = Some ''/tmp/rec.wav''\<rparr>, 1)"
    by (simp_all add: mock_def reporting_def)
  have g: "path_join mock ''output'' (getTimestampedAudioFilename mock 1) =
      ''output/audio-20260110-120000.wav''"
    by (simp add: mock_def simple_join_def)
  from transcription_path_priority
    [OF live(1), where C = mock and w = 0 and ?w1.0 = 1 and tr = "[]"
      and r = "\<lparr>cancelled = None, result_audioFilePath = None\<rparr>"] pm f nodir
  have a: "transcribed_paths (fst (snd (audio_commit_execute mock file_config ([], 0)))) = [''/a.wav'']"
    and b: "transcribed_paths (fst (snd (audio_review_execute mock file_config ([], 0)))) = [''/a.wav'']"
    by simp_all
  from transcription_path_priority
    [OF live(2), where C = reporting and w = 0 and ?w1.0 = 1 and tr = "[]"
      and r = "\<lparr>cancelled = Some False, result_audioFilePath = Some ''/tmp/rec.wav''\<rparr>"] pm f
  have c: "transcribed_paths (fst (snd (audio_commit_execute reporting base_config ([], 0)))) =
      [''/tmp/rec.wav'']"
    by simp
  from transcription_path_priority
    [OF live(2), where C = mock and w = 0 and ?w1.0 = 1 and tr = "[]"
      and r = "\<lparr>cancelled = None, result_audioFilePath = None\<rparr>"] pm f g
  have d: "transcribed_paths (fst (snd (audio_commit_execute mock base_config ([], 0)))) =
      [''output/audio-20260110-120000.wav'']"
    by (simp add: truthy_str_def)
  show ?thesis
    using live nodir a b c d by simp
qed

section \<open>Batch mode\<close>























section \<open>The batch item against the single file pipeline\<close>









section \<open>The config handed to the downstream command\<close>

text \<open>
  C9 as stated fails in the review flow: a field of the review block outside the mapped
  set is in the config, the live run delegates, and the field is gone from the block
  the downstream command receives.
\<close>

theorem delegation_frame_counterexample:
  "map_option review_rest (review extra_review_config) = Some [(''custom'', JBool True)]
   \<and> fst (snd (audio_review_execute speaking extra_review_config ([], 0))) =
       [ProcessAudioCalled (audio_options_of (audioReview extra_review_config) extra_review_config),
        TranscribeCalled ''output/audio-20260110-120000.wav''
          (transcribe_options_of speaking extra_review_config),
        ReviewCalled (review_delegate_config extra_review_config '' rename the helper '')]
   \<and> map_option review_rest
        (review (review_delegate_config extra_review_config '' rename the helper '')) = Some []
   \<and> map_option review_rest
        (review (review_delegate_config extra_review_config '' rename the helper ''))
       \<noteq> map_option review_rest (review extra_review_config)"
proof -
  have a: "map_option review_rest (review extra_review_config) = Some [(''custom'', JBool True)]"
    by (simp add: extra_review_config_def)
  have b: "fst (snd (audio_review_execute speaking extra_review_config ([], 0))) =
       [ProcessAudioCalled (audio_options_of (audioReview extra_review_config) extra_review_config),
        TranscribeCalled ''output/audio-20260110-120000.wav''
          (transcribe_options_of speaking extra_review_config),
        ReviewCalled (review_delegate_config extra_review_config '' rename the helper '')]"
    by code_simp
  have c: "map_option review_rest
        (review (review_delegate_config extra_review_config '' rename the helper '')) = Some []"
    by (simp add: review_delegate_config_def mapped_review_def)
  have d: "map_option review_rest
        (review (review_delegate_config extra_review_config '' rename the helper ''))
       \<noteq> map_option review_rest (review extra_review_config)"
    unfolding a c by simp
  from a b c d show ?thesis by blast
qed


lemma commit_try_trace_quiet:
  "CommitCalled c \<notin> set (fst (snd (commit_try C cfg ([], w))))"
proof -
  have "filter is_delegation (fst (snd (commit_try C cfg ([], w)))) = []"
    using commit_try_no_delegation [of C cfg "([], w)"] by simp
  then have "\<forall>ev \<in> set (fst (snd (commit_try C cfg ([], w)))). \<not> is_delegation ev"
    by (simp add: filter_empty_conv)
  then show ?thesis
    by (auto simp: is_delegation_def)
qed

lemma review_try_trace_quiet:
  "ReviewCalled c \<notin> set (fst (snd (review_try C cfg ([], w))))"
proof -
  have "filter is_delegation (fst (snd (review_try C cfg ([], w)))) = []"
    using review_try_no_delegation [of C cfg "([], w)"] by simp
  then have "\<forall>ev \<in> set (fst (snd (review_try C cfg ([], w)))). \<not> is_delegation ev"
    by (simp add: filter_empty_conv)
  then show ?thesis
    by (auto simp: is_delegation_def)
qed

lemma audio_commit_execute_delegates:
  assumes "\<not> isDryRun cfg"
    and "CommitCalled c \<in> set (fst (snd (audio_commit_execute C cfg ([], w))))"
  shows "\<exists>a. c = commit_delegate_config cfg a"
proof -
  have "\<exists>evs. fst (snd (audio_commit_execute C cfg ([], w))) =
            fst (snd (commit_try C cfg ([], w))) @ evs
          \<and> (evs = [] \<or> (\<exists>a. evs = [CommitCalled (commit_delegate_config cfg a)]))"
    using assms(1)
    by (auto simp: audio_commit_execute_def executeInternal_def call_eq
        split: sum.splits prod.splits)
  then show ?thesis
    using assms(2) commit_try_trace_quiet [of c C cfg w] by auto
qed

lemma audio_review_execute_delegates:
  assumes "\<not> isDryRun cfg" "\<not> truthy_str (opt_directory cfg)"
    and "ReviewCalled c \<in> set (fst (snd (audio_review_execute C cfg ([], w))))"
  shows "\<exists>a. c = review_delegate_config cfg a"
proof -
  have "\<exists>evs. fst (snd (review_single C cfg ([], w))) =
            fst (snd (review_try C cfg ([], w))) @ evs
          \<and> (evs = [] \<or> (\<exists>a. evs = [ReviewCalled (review_delegate_config cfg a)]))"
    by (auto simp: review_single_def call_eq split: sum.splits prod.splits)
  then show ?thesis
    using assms review_try_trace_quiet [of c C cfg w]
    by (auto simp: audio_review_execute_single)
qed

text \<open>
  C9, as amended: the config a live single run hands to the downstream command differs
  from the invocation config in the downstream block only. The commit flow keeps every
  field of an existing \<^verbatim>\<open>commit\<close> block and sets \<^verbatim>\<open>direction\<close>. The review flow builds the
  \<^verbatim>\<open>review\<close> block anew from the ten mapped fields of the \<^verbatim>\<open>audioReview\<close> block and the
  \<^verbatim>\<open>note\<close>: no other field of an existing \<^verbatim>\<open>review\<close> block is passed on.
\<close>

theorem delegation_frame:
  "(commit_delegate_config cfg a)\<lparr>commit := commit cfg\<rparr> = cfg
   \<and> (\<forall>c. commit cfg = Some c \<longrightarrow>
         (\<exists>d. commit (commit_delegate_config cfg a) = Some (c\<lparr>direction := Some d\<rparr>)))
   \<and> (commit cfg = None \<longrightarrow>
         (\<exists>d. commit (commit_delegate_config cfg a) = Some \<lparr>direction = Some d, commit_rest = []\<rparr>))
   \<and> (review_delegate_config cfg a)\<lparr>review := review cfg\<rparr> = cfg
   \<and> (\<exists>n. review (review_delegate_config cfg a) =
         Some \<lparr>includeCommitHistory = (case audioReview cfg of None \<Rightarrow> None | Some b \<Rightarrow> ar_includeCommitHistory b),
               includeRecentDiffs = (case audioReview cfg of None \<Rightarrow> None | Some b \<Rightarrow> ar_includeRecentDiffs b),
               includeReleaseNotes = (case audioReview cfg of None \<Rightarrow> None | Some b \<Rightarrow> ar_includeReleaseNotes b),
               includeGithubIssues = (case audioReview cfg of None \<Rightarrow> None | Some b \<Rightarrow> ar_includeGithubIssues b),
               commitHistoryLimit = (case audioReview cfg of None \<Rightarrow> None | Some b \<Rightarrow> ar_commitHistoryLimit b),
               diffHistoryLimit = (case audioReview cfg of None \<Rightarrow> None | Some b \<Rightarrow> ar_diffHistoryLimit b),
               releaseNotesLimit = (case audioReview cfg of None \<Rightarrow> None | Some b \<Rightarrow> ar_releaseNotesLimit b),
               githubIssuesLimit = (case audioReview cfg of None \<Rightarrow> None | Some b \<Rightarrow> ar_githubIssuesLimit b),
               sendit = (case audioReview cfg of None \<Rightarrow> None | Some b \<Rightarrow> ar_sendit b),
               rv_context = (case audioReview cfg of None \<Rightarrow> None | Some b \<Rightarrow> ar_context b),
               rv_note = Some n,
               review_rest = []\<rparr>)
   \<and> (\<not> isDryRun cfg \<longrightarrow>
        (\<forall>c. CommitCalled c \<in> set (fst (snd (audio_commit_execute C cfg ([], w)))) \<longrightarrow>
           (\<exists>x. c = commit_delegate_config cfg x)))
   \<and> (\<not> isDryRun cfg \<and> \<not> truthy_str (opt_directory cfg) \<longrightarrow>
        (\<forall>c. ReviewCalled c \<in> set (fst (snd (audio_review_execute C cfg ([], w)))) \<longrightarrow>
           (\<exists>x. c = review_delegate_config cfg x)))"
proof (intro conjI allI impI)
  show "(commit_delegate_config cfg a)\<lparr>commit := commit cfg\<rparr> = cfg"
    by (simp add: commit_delegate_config_def Let_def)
  show "(review_delegate_config cfg a)\<lparr>review := review cfg\<rparr> = cfg"
    by (simp add: review_delegate_config_def)
  show "\<exists>n. review (review_delegate_config cfg a) =
         Some \<lparr>includeCommitHistory = (case audioReview cfg of None \<Rightarrow> None | Some b \<Rightarrow> ar_includeCommitHistory b),
               includeRecentDiffs = (case audioReview cfg of None \<Rightarrow> None | Some b \<Rightarrow> ar_includeRecentDiffs b),
               includeReleaseNotes = (case audioReview cfg of None \<Rightarrow> None | Some b \<Rightarrow> ar_includeReleaseNotes b),
               includeGithubIssues = (case audioReview cfg of None \<Rightarrow> None | Some b \<Rightarrow> ar_includeGithubIssues b),
               commitHistoryLimit = (case audioReview cfg of None \<Rightarrow> None | Some b \<Rightarrow> ar_commitHistoryLimit b),
               diffHistoryLimit = (case audioReview cfg of None \<Rightarrow> None | Some b \<Rightarrow> ar_diffHistoryLimit b),
               releaseNotesLimit = (case audioReview cfg of None \<Rightarrow> None | Some b \<Rightarrow> ar_releaseNotesLimit b),
               githubIssuesLimit = (case audioReview cfg of None \<Rightarrow> None | Some b \<Rightarrow> ar_githubIssuesLimit b),
               sendit = (case audioReview cfg of None \<Rightarrow> None | Some b \<Rightarrow> ar_sendit b),
               rv_context = (case audioReview cfg of None \<Rightarrow> None | Some b \<Rightarrow> ar_context b),
               rv_note = Some n,
               review_rest = []\<rparr>"
    by (simp add: review_delegate_config_def mapped_review_def)
next
  fix c assume "commit cfg = Some c"
  then show "\<exists>d. commit (commit_delegate_config cfg a) = Some (c\<lparr>direction := Some d\<rparr>)"
    by (auto simp: commit_delegate_config_def Let_def)
next
  assume "commit cfg = None"
  then show "\<exists>d. commit (commit_delegate_config cfg a) = Some \<lparr>direction = Some d, commit_rest = []\<rparr>"
    by (simp add: commit_delegate_config_def Let_def)
next
  fix c
  assume "\<not> isDryRun cfg"
    and "CommitCalled c \<in> set (fst (snd (audio_commit_execute C cfg ([], w))))"
  then show "\<exists>x. c = commit_delegate_config cfg x"
    by (rule audio_commit_execute_delegates)
next
  fix c
  assume "\<not> isDryRun cfg \<and> \<not> truthy_str (opt_directory cfg)"
    and "ReviewCalled c \<in> set (fst (snd (audio_review_execute C cfg ([], w))))"
  then show "\<exists>x. c = review_delegate_config cfg x"
    using audio_review_execute_delegates [of cfg c C w] by blast
qed


theorem delegation_frame_witness:
  "\<not> isDryRun directed_config \<and> \<not> truthy_str (opt_directory directed_config)
   \<and> commit directed_config =
       Some \<lparr>direction = Some ''fix typo'', commit_rest = [(''sendit'', JBool True)]\<rparr>
   \<and> (\<exists>d. commit (commit_delegate_config directed_config ''add tests'') =
          Some \<lparr>direction = Some d, commit_rest = [(''sendit'', JBool True)]\<rparr>)
   \<and> (commit_delegate_config directed_config ''add tests'')\<lparr>commit := commit directed_config\<rparr> =
       directed_config
   \<and> CommitCalled (commit_delegate_config directed_config [])
       \<in> set (fst (snd (audio_commit_execute mock directed_config ([], 0))))
   \<and> (\<exists>x. commit_delegate_config directed_config [] = commit_delegate_config directed_config x)
   \<and> commit base_config = None
   \<and> (\<exists>d. commit (commit_delegate_config base_config ''add tests'') =
          Some \<lparr>direction = Some d, commit_rest = []\<rparr>)
   \<and> ReviewCalled (review_delegate_config directed_config [])
       \<in> set (fst (snd (audio_review_execute mock directed_config ([], 0))))
   \<and> (\<exists>x. review_delegate_config directed_config [] = review_delegate_config directed_config x)"
proof -
  have live: "\<not> isDryRun directed_config"
    by (simp add: isDryRun_def directed_config_def base_config_def)
  have nodir: "\<not> truthy_str (opt_directory directed_config)"
    by (simp add: opt_directory_def truthy_str_def directed_config_def base_config_def)
  have cd: "commit directed_config =
       Some \<lparr>direction = Some ''fix typo'', commit_rest = [(''sendit'', JBool True)]\<rparr>"
    by (simp add: directed_config_def)
  have cb: "commit base_config = None"
    by (simp add: base_config_def)
  have mc: "CommitCalled (commit_delegate_config directed_config [])
       \<in> set (fst (snd (audio_commit_execute mock directed_config ([], 0))))"
    by code_simp
  have mr: "ReviewCalled (review_delegate_config directed_config [])
       \<in> set (fst (snd (audio_review_execute mock directed_config ([], 0))))"
    by code_simp
  note f = delegation_frame [of directed_config "''add tests''" mock 0]
  from f cd have a: "\<exists>d. commit (commit_delegate_config directed_config ''add tests'') =
          Some \<lparr>direction = Some d, commit_rest = [(''sendit'', JBool True)]\<rparr>"
    by simp
  from f have b: "(commit_delegate_config directed_config ''add tests'')\<lparr>commit := commit directed_config\<rparr> =
       directed_config"
    by blast
  from f live mc have c: "\<exists>x. commit_delegate_config directed_config [] = commit_delegate_config directed_config x"
    by blast
  from f live nodir mr have d: "\<exists>x. review_delegate_config directed_config [] = review_delegate_config directed_config x"
    by blast
  from delegation_frame [of base_config "''add tests''" mock 0] cb
  have e: "\<exists>d. commit (commit_delegate_config base_config ''add tests'') =
          Some \<lparr>direction = Some d, commit_rest = []\<rparr>"
    by blast
  show ?thesis
    using live nodir cd a b mc c cb e mr d by blast
qed

end
